theory Spec2Isabelle
  imports Main "HOL-Library.Multiset"
begin

section \<open>JavaScript values\<close>

text \<open>
  Request bodies, response bodies and the objects the client service resolves to are
  dynamically typed. They are embedded as one datatype of JavaScript values. A string is a
  list of code units below 256; \<open>JDate\<close> is a \<open>Date\<close> (milliseconds), \<open>JRatio\<close> the exact
  quotient behind an SQL \<open>AVG\<close>.
\<close>

datatype jv =
    JUndefined
  | JNull
  | JBool bool
  | JNum int
  | JNaN
  | JRatio int int
  | JDate int
  | JStr string
  | JArr "jv list"
  | JObj "(string \<times> jv) list"

datatype js_error =
    TypeError string
  | DbError string
  | QuotaExceededError
  | HttpError nat
  | NetworkError
  | SyntaxError

text \<open>Truthiness, as \<open>if (v)\<close>, \<open>!v\<close>, \<open>a && b\<close> and \<open>a || b\<close> test it.\<close>

fun truthy :: "jv \<Rightarrow> bool" where
  "truthy JUndefined = False"
| "truthy JNull = False"
| "truthy (JBool b) = b"
| "truthy (JNum n) = (n \<noteq> 0)"
| "truthy JNaN = False"
| "truthy (JStr s) = (s \<noteq> [])"
| "truthy _ = True"

fun typeof :: "jv \<Rightarrow> string" where
  "typeof JUndefined = ''undefined''"
| "typeof (JBool _) = ''boolean''"
| "typeof (JNum _) = ''number''"
| "typeof JNaN = ''number''"
| "typeof (JStr _) = ''string''"
| "typeof _ = ''object''"

text \<open>Reading a property of an object; a missing property reads as \<open>undefined\<close>.\<close>

definition field :: "(string \<times> jv) list \<Rightarrow> string \<Rightarrow> jv" where
  "field fs k = (case map_of fs k of None \<Rightarrow> JUndefined | Some v \<Rightarrow> v)"

text \<open>\<open>v.k\<close> on any value: a \<open>TypeError\<close> on \<open>undefined\<close> and \<open>null\<close>.\<close>

fun get_prop :: "jv \<Rightarrow> string \<Rightarrow> js_error + jv" where
  "get_prop JUndefined k = Inl (TypeError ''Cannot read properties of undefined'')"
| "get_prop JNull k = Inl (TypeError ''Cannot read properties of null'')"
| "get_prop (JObj fs) k = Inr (field fs k)"
| "get_prop _ k = Inr JUndefined"

text \<open>Whether an object carries a property at all (\<open>k in v\<close>).\<close>

fun has_field :: "jv \<Rightarrow> string \<Rightarrow> bool" where
  "has_field (JObj fs) k = (k \<in> set (map fst fs))"
| "has_field _ k = False"

subsection \<open>Strings\<close>

text \<open>
  The white space \<open>trim\<close> and \<open>parseInt\<close> strip, among the code units below 256: tab,
  line feed, vertical tab, form feed, carriage return, space and no-break space.
  \<open>toLowerCase\<close> maps the capital letters among them to their small letters.
\<close>

definition is_ws :: "char \<Rightarrow> bool" where
  "is_ws c = ((of_char c :: nat) \<in> {9, 10, 11, 12, 13, 32, 160})"

definition trim :: "string \<Rightarrow> string" where
  "trim s = rev (dropWhile is_ws (rev (dropWhile is_ws s)))"

definition lower_char :: "char \<Rightarrow> char" where
  "lower_char c =
     (let n = (of_char c :: nat)
      in if (65 \<le> n \<and> n \<le> 90) \<or> (192 \<le> n \<and> n \<le> 222 \<and> n \<noteq> 215)
         then char_of (n + 32) else c)"

definition toLowerCase :: "string \<Rightarrow> string" where
  "toLowerCase s = map lower_char s"

text \<open>\<open>s.includes(q)\<close>: \<open>q\<close> occurs in \<open>s\<close> as a contiguous substring.\<close>

fun str_includes :: "string \<Rightarrow> string \<Rightarrow> bool" where
  "str_includes [] q = (q = [])"
| "str_includes (c # s) q = (take (length q) (c # s) = q \<or> str_includes s q)"

subsection \<open>\<open>parseInt\<close>\<close>

definition digit_val :: "char \<Rightarrow> nat option" where
  "digit_val c =
     (let n = (of_char c :: nat)
      in if 48 \<le> n \<and> n \<le> 57 then Some (n - 48)
         else if 97 \<le> n \<and> n \<le> 102 then Some (n - 87)
         else if 65 \<le> n \<and> n \<le> 70 then Some (n - 55)
         else None)"

definition is_digit :: "nat \<Rightarrow> char \<Rightarrow> bool" where
  "is_digit radix c = (case digit_val c of None \<Rightarrow> False | Some d \<Rightarrow> d < radix)"

definition digits_value :: "nat \<Rightarrow> string \<Rightarrow> nat" where
  "digits_value radix ds =
     foldl (\<lambda>acc c. acc * radix + (case digit_val c of None \<Rightarrow> 0 | Some d \<Rightarrow> d)) 0 ds"

text \<open>
  \<open>parseInt(s)\<close> without a radix: leading white space is skipped, a sign is read, a
  \<open>0x\<close> prefix selects base 16, and the longest prefix of digits is the value. \<open>None\<close> is
  \<open>NaN\<close>. The value is exact (no rounding to a double).
\<close>

definition parseInt :: "string \<Rightarrow> int option" where
  "parseInt s =
     (let t = dropWhile is_ws s;
          neg = (t \<noteq> [] \<and> hd t = CHR ''-'');
          u = (if t \<noteq> [] \<and> (hd t = CHR ''-'' \<or> hd t = CHR ''+'') then tl t else t);
          hex = (take 2 u = ''0x'' \<or> take 2 u = ''0X'');
          radix = (if hex then 16 else 10);
          v = (if hex then drop 2 u else u);
          ds = takeWhile (is_digit radix) v
      in if ds = [] then None
         else Some ((if neg then -1 else 1) * int (digits_value radix ds)))"

text \<open>Printing an integer in decimal, as the database does when it stores a number as text.\<close>

function show_nat :: "nat \<Rightarrow> string" where
  "show_nat n =
     (if n < 10 then [char_of (48 + n)]
      else show_nat (n div 10) @ [char_of (48 + n mod 10)])"
  by pat_completeness auto
termination
  by (relation "measure id") auto

definition show_int :: "int \<Rightarrow> string" where
  "show_int i = (if i < 0 then CHR ''-'' # show_nat (nat (- i)) else show_nat (nat i))"

text \<open>A default parameter or default in a destructuring: used for \<open>undefined\<close> only.\<close>

definition js_default :: "jv \<Rightarrow> jv \<Rightarrow> jv" where
  "js_default v d = (if v = JUndefined then d else v)"

text \<open>\<open>a || b\<close>.\<close>

definition js_or :: "jv \<Rightarrow> jv \<Rightarrow> jv" where
  "js_or a b = (if truthy a then a else b)"

section \<open>The schema store\<close>

text \<open>
  The tables of \<open>schema.sql\<close>. \<open>users\<close> holds the identifiers of the reserved table.
  \<open>clock\<close> is the time \<open>NOW()\<close> and \<open>new Date()\<close> read. Every statement sent through
  \<open>db.query\<close> or \<open>db.queryOne\<close> is counted in \<open>calls\<close>, and \<open>faults\<close> is the schedule
  of infrastructure failures: the next statement fails when its head is \<open>True\<close>.
\<close>

record conversation_row =
  c_id :: int
  c_user_id :: "int option"
  c_title :: "string option"
  c_created_at :: int
  c_updated_at :: int

record message_row =
  m_id :: int
  m_conversation_id :: int
  m_content :: string
  m_type :: string
  m_timestamp :: int

record database =
  users :: "int list"
  conversations :: "conversation_row list"
  messages :: "message_row list"
  next_conversation_id :: int
  next_message_id :: int
  clock :: int
  faults :: "bool list"
  calls :: nat

text \<open>
  \<open>pool.execute(sql, params)\<close>: the driver refuses an \<open>undefined\<close> bind parameter before
  anything is sent; otherwise the statement runs unless the schedule says it fails.
\<close>

definition db_query :: "database \<Rightarrow> jv list \<Rightarrow> database \<times> js_error option" where
  "db_query db params =
     (if JUndefined \<in> set params
      then (db\<lparr>calls := Suc (calls db)\<rparr>,
            Some (TypeError ''Bind parameters must not contain undefined''))
      else (case faults db of
              [] \<Rightarrow> (db\<lparr>calls := Suc (calls db)\<rparr>, None)
            | f # fs \<Rightarrow>
                (db\<lparr>calls := Suc (calls db), faults := fs\<rparr>,
                 if f then Some (DbError ''connection lost'') else None)))"

text \<open>
  How a bound parameter lands in a text column and in an integer column (strict mode):
  \<open>None\<close> is SQL \<open>NULL\<close>. A string bound to an integer column must be a decimal numeral.
\<close>

fun sql_text :: "jv \<Rightarrow> js_error + string option" where
  "sql_text JNull = Inr None"
| "sql_text (JStr s) = Inr (Some s)"
| "sql_text (JNum n) = Inr (Some (show_int n))"
| "sql_text (JBool b) = Inr (Some (if b then ''1'' else ''0''))"
| "sql_text _ = Inl (DbError ''Incorrect string value'')"

fun sql_int :: "jv \<Rightarrow> js_error + int option" where
  "sql_int JNull = Inr None"
| "sql_int (JNum n) = Inr (Some n)"
| "sql_int (JBool b) = Inr (Some (if b then 1 else 0))"
| "sql_int (JStr s) =
     (if s \<noteq> [] \<and> list_all (is_digit 10) s then Inr (Some (int (digits_value 10 s)))
      else Inl (DbError ''Incorrect integer value''))"
| "sql_int _ = Inl (DbError ''Incorrect integer value'')"

text \<open>
  A parameter compared with an integer column in a \<open>WHERE\<close> clause: a string counts as
  its leading decimal digits, 0 when there are none; \<open>NULL\<close> equals nothing.
\<close>

fun sql_number :: "jv \<Rightarrow> int option" where
  "sql_number (JNum n) = Some n"
| "sql_number (JBool b) = Some (if b then 1 else 0)"
| "sql_number (JStr s) = Some (int (digits_value 10 (takeWhile (is_digit 10) s)))"
| "sql_number _ = None"

definition user_is :: "jv \<Rightarrow> conversation_row \<Rightarrow> bool" where
  "user_is userId c = (case sql_number userId of None \<Rightarrow> False | Some n \<Rightarrow> c_user_id c = Some n)"

text \<open>\<open>LIMIT ? OFFSET ?\<close>: \<open>NaN\<close> (\<open>None\<close>) and negative numbers are refused.\<close>

definition limit_ok :: "int option \<Rightarrow> bool" where
  "limit_ok l = (case l of None \<Rightarrow> False | Some n \<Rightarrow> 0 \<le> n)"

definition limit_of :: "int option \<Rightarrow> nat" where
  "limit_of l = (case l of None \<Rightarrow> 0 | Some n \<Rightarrow> nat n)"

text \<open>
  \<open>ORDER BY key ASC\<close> is a stable sort; \<open>ORDER BY key DESC\<close> is its reverse (the order
  among equal keys is the engine's choice).
\<close>

definition order_by_asc :: "('a \<Rightarrow> int) \<Rightarrow> 'a list \<Rightarrow> 'a list" where
  "order_by_asc k xs = sort_key k xs"

definition order_by_desc :: "('a \<Rightarrow> int) \<Rightarrow> 'a list \<Rightarrow> 'a list" where
  "order_by_desc k xs = rev (sort_key k xs)"

text \<open>
  \<open>subject LIKE pattern\<close> under a case-insensitive collation: \<open>%\<close> is any run of
  characters, \<open>_\<close> any one character, a backslash takes the next character literally.
\<close>

definition ci_eq :: "char \<Rightarrow> char \<Rightarrow> bool" where
  "ci_eq a b = (lower_char a = lower_char b)"

fun like_match :: "string \<Rightarrow> string \<Rightarrow> bool" where
  "like_match [] s = (s = [])"
| "like_match (p # ps) s =
     (if p = CHR ''%'' then
        like_match ps s \<or> (case s of [] \<Rightarrow> False | _ # t \<Rightarrow> like_match (p # ps) t)
      else if p = CHR ''_'' then
        (case s of [] \<Rightarrow> False | _ # t \<Rightarrow> like_match ps t)
      else if p = CHR 0x5C then
        (case ps of
           [] \<Rightarrow> s = [CHR 0x5C]
         | q # qs \<Rightarrow> (case s of [] \<Rightarrow> False | c # t \<Rightarrow> ci_eq q c \<and> like_match qs t))
      else (case s of [] \<Rightarrow> False | c # t \<Rightarrow> ci_eq p c \<and> like_match ps t))"

definition sql_like :: "string option \<Rightarrow> string \<Rightarrow> bool" where
  "sql_like subject pattern = (case subject of None \<Rightarrow> False | Some s \<Rightarrow> like_match pattern s)"


text \<open>The next statement sent to the database is not failed by the infrastructure.\<close>

definition next_statement_runs :: "database \<Rightarrow> bool" where
  "next_statement_runs db = (case faults db of [] \<Rightarrow> True | f # fs \<Rightarrow> \<not> f)"

section \<open>The query layer\<close>

definition num_param :: "int option \<Rightarrow> jv" where
  "num_param n = (case n of None \<Rightarrow> JNaN | Some i \<Rightarrow> JNum i)"

definition opt_num :: "int option \<Rightarrow> jv" where
  "opt_num n = (case n of None \<Rightarrow> JNull | Some i \<Rightarrow> JNum i)"

definition opt_date :: "int option \<Rightarrow> jv" where
  "opt_date n = (case n of None \<Rightarrow> JNull | Some i \<Rightarrow> JDate i)"

definition opt_str :: "string option \<Rightarrow> jv" where
  "opt_str n = (case n of None \<Rightarrow> JNull | Some s \<Rightarrow> JStr s)"

definition messages_of :: "database \<Rightarrow> int \<Rightarrow> message_row list" where
  "messages_of db cid = filter (\<lambda>m. m_conversation_id m = cid) (messages db)"

fun latest :: "int list \<Rightarrow> int option" where
  "latest [] = None"
| "latest (t # ts) = Some (fold max ts t)"

fun earliest :: "int list \<Rightarrow> int option" where
  "earliest [] = None"
| "earliest (t # ts) = Some (fold min ts t)"

text \<open>\<open>AVG\<close> over a column: \<open>NULL\<close> without rows, the exact quotient otherwise.\<close>

definition sql_avg :: "nat list \<Rightarrow> jv" where
  "sql_avg ns = (if ns = [] then JNull else JRatio (int (sum_list ns)) (int (length ns)))"

text \<open>A conversation row joined with \<open>COUNT(m.id)\<close> and \<open>MAX(m.timestamp)\<close> of a group.\<close>

type_synonym conversation_view = "conversation_row \<times> nat \<times> int option"

definition group_view :: "conversation_row \<Rightarrow> message_row list \<Rightarrow> conversation_view" where
  "group_view c ms = (c, length ms, latest (map m_timestamp ms))"

definition view_updated_at :: "conversation_view \<Rightarrow> int" where
  "view_updated_at v = c_updated_at (fst v)"

definition conversation_json :: "conversation_view \<Rightarrow> jv" where
  "conversation_json v =
     (case v of (c, n, t) \<Rightarrow>
        JObj [(''id'', JNum (c_id c)),
              (''user_id'', opt_num (c_user_id c)),
              (''title'', opt_str (c_title c)),
              (''created_at'', JDate (c_created_at c)),
              (''updated_at'', JDate (c_updated_at c)),
              (''message_count'', JNum (int n)),
              (''last_message_time'', opt_date t)])"

definition message_json :: "message_row \<Rightarrow> jv" where
  "message_json m =
     JObj [(''id'', JNum (m_id m)),
           (''conversation_id'', JNum (m_conversation_id m)),
           (''content'', JStr (m_content m)),
           (''type'', JStr (m_type m)),
           (''timestamp'', JDate (m_timestamp m))]"

subsection \<open>Conversation\<close>

definition too_long :: "string option \<Rightarrow> bool" where
  "too_long t = (case t of None \<Rightarrow> False | Some s \<Rightarrow> 255 < length s)"

definition unknown_user :: "database \<Rightarrow> int option \<Rightarrow> bool" where
  "unknown_user db u = (case u of None \<Rightarrow> False | Some n \<Rightarrow> n \<notin> set (users db))"

definition Conversation_create :: "database \<Rightarrow> jv \<Rightarrow> jv \<Rightarrow> database \<times> (js_error + jv)" where
  "Conversation_create db title0 userId0 =
     (let title = js_default title0 (JStr ''New Conversation'');
          userId = js_default userId0 JNull
      in case db_query db [title, userId] of
           (db1, Some e) \<Rightarrow> (db1, Inl e)
         | (db1, None) \<Rightarrow>
             (case sql_text title of
                Inl e \<Rightarrow> (db1, Inl e)
              | Inr t \<Rightarrow>
                  (case sql_int userId of
                     Inl e \<Rightarrow> (db1, Inl e)
                   | Inr u \<Rightarrow>
                       if too_long t then (db1, Inl (DbError ''Data too long for column title''))
                       else if unknown_user db1 u
                         then (db1, Inl (DbError ''Cannot add or update a child row''))
                       else
                         (db1\<lparr>conversations := conversations db1 @
                                 [\<lparr>c_id = next_conversation_id db1, c_user_id = u, c_title = t,
                                   c_created_at = clock db1, c_updated_at = clock db1\<rparr>],
                               next_conversation_id := next_conversation_id db1 + 1\<rparr>,
                          Inr (JObj [(''id'', JNum (next_conversation_id db1)),
                                     (''title'', title),
                                     (''user_id'', userId),
                                     (''created_at'', JDate (clock db1)),
                                     (''updated_at'', JDate (clock db1))])))))"

definition Conversation_findById ::
  "database \<Rightarrow> int \<Rightarrow> database \<times> (js_error + conversation_view option)" where
  "Conversation_findById db cid =
     (case db_query db [JNum cid] of
        (db1, Some e) \<Rightarrow> (db1, Inl e)
      | (db1, None) \<Rightarrow>
          (db1, Inr (case filter (\<lambda>c. c_id c = cid) (conversations db1) of
                       [] \<Rightarrow> None
                     | c # _ \<Rightarrow> Some (group_view c (messages_of db1 (c_id c))))))"

definition user_filter :: "jv \<Rightarrow> conversation_row list \<Rightarrow> conversation_row list" where
  "user_filter u cs = (if u \<noteq> JNull then filter (user_is u) cs else cs)"

definition Conversation_findAll ::
  "database \<Rightarrow> jv \<Rightarrow> int option \<Rightarrow> int option \<Rightarrow> database \<times> (js_error + conversation_view list)" where
  "Conversation_findAll db userId0 limit offset =
     (let userId = js_default userId0 JNull;
          params = (if userId \<noteq> JNull then [userId] else []) @ [num_param limit, num_param offset]
      in case db_query db params of
           (db1, Some e) \<Rightarrow> (db1, Inl e)
         | (db1, None) \<Rightarrow>
             if \<not> (limit_ok limit \<and> limit_ok offset)
             then (db1, Inl (DbError ''Incorrect arguments to LIMIT''))
             else (db1, Inr (take (limit_of limit) (drop (limit_of offset)
                     (order_by_desc view_updated_at
                        (map (\<lambda>c. group_view c (messages_of db1 (c_id c)))
                           (user_filter userId (conversations db1))))))))"

definition Conversation_updateTitle ::
  "database \<Rightarrow> int \<Rightarrow> jv \<Rightarrow> database \<times> (js_error + bool)" where
  "Conversation_updateTitle db cid title =
     (case db_query db [title, JNum cid] of
        (db1, Some e) \<Rightarrow> (db1, Inl e)
      | (db1, None) \<Rightarrow>
          (case sql_text title of
             Inl e \<Rightarrow> (db1, Inl e)
           | Inr t \<Rightarrow>
               if too_long t then (db1, Inl (DbError ''Data too long for column title''))
               else
                 (db1\<lparr>conversations :=
                        map (\<lambda>c. if c_id c = cid then c\<lparr>c_title := t, c_updated_at := clock db1\<rparr> else c)
                          (conversations db1)\<rparr>,
                  Inr (0 < length (filter (\<lambda>c. c_id c = cid) (conversations db1))))))"

text \<open>Deleting a conversation row deletes its messages (\<open>ON DELETE CASCADE\<close>).\<close>

definition Conversation_delete :: "database \<Rightarrow> int \<Rightarrow> database \<times> (js_error + bool)" where
  "Conversation_delete db cid =
     (case db_query db [JNum cid] of
        (db1, Some e) \<Rightarrow> (db1, Inl e)
      | (db1, None) \<Rightarrow>
          (if 0 < length (filter (\<lambda>c. c_id c = cid) (conversations db1))
           then (db1\<lparr>conversations := filter (\<lambda>c. c_id c \<noteq> cid) (conversations db1),
                      messages := filter (\<lambda>m. m_conversation_id m \<noteq> cid) (messages db1)\<rparr>,
                 Inr True)
           else (db1, Inr False)))"

definition Conversation_getStats :: "database \<Rightarrow> jv \<Rightarrow> database \<times> (js_error + jv)" where
  "Conversation_getStats db userId0 =
     (let userId = js_default userId0 JNull
      in case db_query db (if userId \<noteq> JNull then [userId] else []) of
           (db1, Some e) \<Rightarrow> (db1, Inl e)
         | (db1, None) \<Rightarrow>
             (let cs = user_filter userId (conversations db1);
                  ms = concat (map (\<lambda>c. messages_of db1 (c_id c)) cs);
                  us = filter (\<lambda>m. m_type m = ''user'') ms;
                  as = filter (\<lambda>m. m_type m = ''ai'') ms
              in (db1, Inr (JObj
                   [(''total_conversations'', JNum (int (length (remdups (map c_id cs))))),
                    (''total_messages'', JNum (int (length ms))),
                    (''user_messages'', JNum (int (length (remdups (map m_id us))))),
                    (''ai_messages'', JNum (int (length (remdups (map m_id as))))),
                    (''avg_user_message_length'', sql_avg (map (\<lambda>m. length (m_content m)) us)),
                    (''avg_ai_message_length'', sql_avg (map (\<lambda>m. length (m_content m)) as))]))))"

text \<open>
  The rows of one conversation that the \<open>WHERE\<close> clause of \<open>search\<close> keeps: with a
  matching title every joined row, otherwise the rows whose message content matches.
\<close>

definition matching_messages :: "database \<Rightarrow> string \<Rightarrow> conversation_row \<Rightarrow> message_row list" where
  "matching_messages db pattern c =
     (if sql_like (c_title c) pattern then messages_of db (c_id c)
      else filter (\<lambda>m. like_match pattern (m_content m)) (messages_of db (c_id c)))"

definition search_hit :: "database \<Rightarrow> string \<Rightarrow> conversation_row \<Rightarrow> bool" where
  "search_hit db pattern c =
     (sql_like (c_title c) pattern \<or> matching_messages db pattern c \<noteq> [])"

definition Conversation_search ::
  "database \<Rightarrow> string \<Rightarrow> jv \<Rightarrow> int option \<Rightarrow> database \<times> (js_error + conversation_view list)" where
  "Conversation_search db query userId0 limit =
     (let userId = js_default userId0 JNull;
          pattern = ''%'' @ query @ ''%'';
          params = [JStr pattern, JStr pattern] @ (if userId \<noteq> JNull then [userId] else [])
                     @ [num_param limit]
      in case db_query db params of
           (db1, Some e) \<Rightarrow> (db1, Inl e)
         | (db1, None) \<Rightarrow>
             if \<not> limit_ok limit then (db1, Inl (DbError ''Incorrect arguments to LIMIT''))
             else (db1, Inr (take (limit_of limit)
                     (order_by_desc view_updated_at
                        (map (\<lambda>c. group_view c (matching_messages db1 pattern c))
                           (filter (search_hit db1 pattern)
                              (user_filter userId (conversations db1))))))))"


subsection \<open>Message\<close>

definition message_types :: "string list" where
  "message_types = [''user'', ''ai'', ''error'']"

text \<open>The \<open>ENUM\<close> column: the member equal to the value under the collation, if any.\<close>

definition enum_value :: "string \<Rightarrow> string option" where
  "enum_value t = find (\<lambda>v. list_all2 ci_eq v t) message_types"

text \<open>The \<open>INSERT\<close> of \<open>Message.create\<close>; the result is \<open>insertId\<close>.\<close>

definition Message_insert ::
  "database \<Rightarrow> int \<Rightarrow> string \<Rightarrow> string \<Rightarrow> database \<times> (js_error + int)" where
  "Message_insert db cid content type =
     (case db_query db [JNum cid, JStr content, JStr type] of
        (db1, Some e) \<Rightarrow> (db1, Inl e)
      | (db1, None) \<Rightarrow>
          if filter (\<lambda>c. c_id c = cid) (conversations db1) = []
          then (db1, Inl (DbError ''Cannot add or update a child row''))
          else (case enum_value type of
                  None \<Rightarrow> (db1, Inl (DbError ''Data truncated for column type''))
                | Some ty \<Rightarrow>
                    if 65535 < length content
                    then (db1, Inl (DbError ''Data too long for column content''))
                    else
                      (db1\<lparr>messages := messages db1 @
                              [\<lparr>m_id = next_message_id db1, m_conversation_id = cid,
                                m_content = content, m_type = ty, m_timestamp = clock db1\<rparr>],
                            next_message_id := next_message_id db1 + 1\<rparr>,
                       Inr (next_message_id db1))))"

text \<open>The \<open>catch\<close> of \<open>updateConversationTimestamp\<close> logs the error and returns.\<close>

definition Message_updateConversationTimestamp :: "database \<Rightarrow> int \<Rightarrow> database" where
  "Message_updateConversationTimestamp db cid =
     (case db_query db [JNum cid] of
        (db1, Some e) \<Rightarrow> db1
      | (db1, None) \<Rightarrow>
          db1\<lparr>conversations :=
                map (\<lambda>c. if c_id c = cid then c\<lparr>c_updated_at := clock db1\<rparr> else c)
                  (conversations db1)\<rparr>)"

definition Message_create ::
  "database \<Rightarrow> int \<Rightarrow> string \<Rightarrow> string \<Rightarrow> database \<times> (js_error + message_row)" where
  "Message_create db cid content type =
     (case Message_insert db cid content type of
        (db1, Inl e) \<Rightarrow> (db1, Inl e)
      | (db1, Inr insertId) \<Rightarrow>
          (let db2 = Message_updateConversationTimestamp db1 cid
           in (db2, Inr \<lparr>m_id = insertId, m_conversation_id = cid, m_content = content,
                         m_type = type, m_timestamp = clock db2\<rparr>)))"

definition Message_findByConversationId ::
  "database \<Rightarrow> int \<Rightarrow> int option \<Rightarrow> int option \<Rightarrow> database \<times> (js_error + message_row list)" where
  "Message_findByConversationId db cid limit offset =
     (case db_query db [JNum cid, num_param limit, num_param offset] of
        (db1, Some e) \<Rightarrow> (db1, Inl e)
      | (db1, None) \<Rightarrow>
          if \<not> (limit_ok limit \<and> limit_ok offset)
          then (db1, Inl (DbError ''Incorrect arguments to LIMIT''))
          else (db1, Inr (take (limit_of limit) (drop (limit_of offset)
                  (order_by_asc m_timestamp (messages_of db1 cid))))))"

definition Message_getRecentMessages ::
  "database \<Rightarrow> int \<Rightarrow> int option \<Rightarrow> database \<times> (js_error + message_row list)" where
  "Message_getRecentMessages db cid cnt =
     (case db_query db [JNum cid, num_param cnt] of
        (db1, Some e) \<Rightarrow> (db1, Inl e)
      | (db1, None) \<Rightarrow>
          if \<not> limit_ok cnt then (db1, Inl (DbError ''Incorrect arguments to LIMIT''))
          else (db1, Inr (rev (take (limit_of cnt)
                  (order_by_desc m_timestamp (messages_of db1 cid))))))"

text \<open>\<open>if (conversationId)\<close>: the filter is applied for a number other than 0.\<close>

definition Message_getStats :: "database \<Rightarrow> int option \<Rightarrow> database \<times> (js_error + jv)" where
  "Message_getStats db conversationId =
     (let filtered = (case conversationId of None \<Rightarrow> False | Some n \<Rightarrow> n \<noteq> 0)
      in case db_query db (if filtered then [opt_num conversationId] else []) of
           (db1, Some e) \<Rightarrow> (db1, Inl e)
         | (db1, None) \<Rightarrow>
             (let ms = (if filtered
                        then filter (\<lambda>m. Some (m_conversation_id m) = conversationId) (messages db1)
                        else messages db1)
              in (db1, Inr (JObj
                   [(''total_messages'', JNum (int (length ms))),
                    (''user_messages'', JNum (int (length (filter (\<lambda>m. m_type m = ''user'') ms)))),
                    (''ai_messages'', JNum (int (length (filter (\<lambda>m. m_type m = ''ai'') ms)))),
                    (''error_messages'', JNum (int (length (filter (\<lambda>m. m_type m = ''error'') ms)))),
                    (''avg_message_length'', sql_avg (map (\<lambda>m. length (m_content m)) ms)),
                    (''first_message_time'', opt_date (earliest (map m_timestamp ms))),
                    (''last_message_time'', opt_date (latest (map m_timestamp ms)))]))))"


section \<open>The HTTP API\<close>

record response =
  status :: nat
  body :: jv

definition json :: "nat \<Rightarrow> (string \<times> jv) list \<Rightarrow> response" where
  "json code props = \<lparr>status = code, body = JObj props\<rparr>"

definition failure :: "nat \<Rightarrow> string \<Rightarrow> response" where
  "failure code msg = json code [(''success'', JBool False), (''error'', JStr msg)]"

definition string_of :: "jv \<Rightarrow> string" where
  "string_of v = (case v of JStr s \<Rightarrow> s | _ \<Rightarrow> [])"

text \<open>
  The validation middleware: \<open>Some r\<close> when it answers with \<open>r\<close> itself, \<open>None\<close> when it
  calls \<open>next()\<close>. The request body is the parsed JSON object.
\<close>

definition validateConversationInput :: "(string \<times> jv) list \<Rightarrow> response option" where
  "validateConversationInput reqbody =
     (let title = field reqbody ''title''
      in if truthy title \<and> (typeof title \<noteq> ''string'' \<or> length (trim (string_of title)) = 0)
         then Some (json 400 [(''error'', JStr ''Invalid title. Title must be a non-empty string.'')])
         else None)"

definition validateMessageInput :: "(string \<times> jv) list \<Rightarrow> response option" where
  "validateMessageInput reqbody =
     (let content = field reqbody ''content'';
          type = field reqbody ''type''
      in if \<not> truthy content \<or> typeof content \<noteq> ''string'' \<or> length (trim (string_of content)) = 0
         then Some (json 400 [(''error'', JStr ''Invalid content. Content must be a non-empty string.'')])
         else if \<not> truthy type \<or> type \<notin> set [JStr ''user'', JStr ''ai'', JStr ''error'']
         then Some (json 400 [(''error'', JStr ''Invalid type. Type must be one of: user, ai, error.'')])
         else None)"

text \<open>A query-string parameter read through \<open>parseInt\<close>, with the default of the destructuring.\<close>

definition int_param :: "(string \<times> string) list \<Rightarrow> string \<Rightarrow> int \<Rightarrow> int option" where
  "int_param q k d = (case map_of q k of None \<Rightarrow> Some d | Some s \<Rightarrow> parseInt s)"

definition str_param :: "(string \<times> string) list \<Rightarrow> string \<Rightarrow> jv" where
  "str_param q k = (case map_of q k of None \<Rightarrow> JUndefined | Some s \<Rightarrow> JStr s)"

text \<open>\<open>!id || isNaN(parseInt(id))\<close>\<close>

definition invalid_id :: "string \<Rightarrow> bool" where
  "invalid_id ident = (ident = [] \<or> parseInt ident = None)"

definition id_of :: "string \<Rightarrow> int" where
  "id_of ident = (case parseInt ident of None \<Rightarrow> 0 | Some n \<Rightarrow> n)"

definition error_message :: "js_error \<Rightarrow> string" where
  "error_message e =
     (case e of TypeError m \<Rightarrow> m | DbError m \<Rightarrow> m | QuotaExceededError \<Rightarrow> ''QuotaExceededError''
      | HttpError n \<Rightarrow> ''HTTP '' @ show_nat n | NetworkError \<Rightarrow> ''Failed to fetch''
      | SyntaxError \<Rightarrow> ''Unexpected token'')"

subsection \<open>Route handlers\<close>

definition health :: "database \<Rightarrow> database \<times> response" where
  "health db =
     (case db_query db [] of
        (db1, None) \<Rightarrow>
          (db1, json 200 [(''status'', JStr ''ok''), (''timestamp'', JDate (clock db1)),
                          (''database'', JObj [(''status'', JStr ''healthy''),
                                               (''timestamp'', JDate (clock db1))])])
      | (db1, Some e) \<Rightarrow>
          (db1, json 200 [(''status'', JStr ''ok''), (''timestamp'', JDate (clock db1)),
                          (''database'', JObj [(''status'', JStr ''unhealthy''),
                                               (''error'', JStr (error_message e)),
                                               (''timestamp'', JDate (clock db1))])]))"

definition create_conversation :: "database \<Rightarrow> (string \<times> jv) list \<Rightarrow> database \<times> response" where
  "create_conversation db reqbody =
     (let title = js_default (field reqbody ''title'') (JStr ''New Conversation'');
          userId = js_or (field reqbody ''user_id'') JNull
      in case Conversation_create db title userId of
           (db1, Inr conversation) \<Rightarrow>
             (db1, json 201 [(''success'', JBool True), (''data'', conversation)])
         | (db1, Inl e) \<Rightarrow> (db1, failure 500 ''Failed to create conversation''))"

definition list_conversations :: "database \<Rightarrow> (string \<times> string) list \<Rightarrow> database \<times> response" where
  "list_conversations db q =
     (let limit = int_param q ''limit'' 50;
          offset = int_param q ''offset'' 0;
          userId = js_or (str_param q ''user_id'') JNull
      in case Conversation_findAll db userId limit offset of
           (db1, Inr convs) \<Rightarrow>
             (db1, json 200 [(''success'', JBool True),
                             (''data'', JArr (map conversation_json convs)),
                             (''pagination'', JObj [(''limit'', num_param limit),
                                                    (''offset'', num_param offset),
                                                    (''count'', JNum (int (length convs)))])])
         | (db1, Inl e) \<Rightarrow> (db1, failure 500 ''Failed to fetch conversations''))"

definition get_conversation :: "database \<Rightarrow> string \<Rightarrow> database \<times> response" where
  "get_conversation db ident =
     (if invalid_id ident then (db, failure 400 ''Invalid conversation ID'')
      else case Conversation_findById db (id_of ident) of
             (db1, Inl e) \<Rightarrow> (db1, failure 500 ''Failed to fetch conversation'')
           | (db1, Inr None) \<Rightarrow> (db1, failure 404 ''Conversation not found'')
           | (db1, Inr (Some conversation)) \<Rightarrow>
               (db1, json 200 [(''success'', JBool True), (''data'', conversation_json conversation)]))"

definition update_conversation ::
  "database \<Rightarrow> string \<Rightarrow> (string \<times> jv) list \<Rightarrow> database \<times> response" where
  "update_conversation db ident reqbody =
     (let title = field reqbody ''title''
      in if invalid_id ident then (db, failure 400 ''Invalid conversation ID'')
         else case Conversation_updateTitle db (id_of ident) title of
                (db1, Inl e) \<Rightarrow> (db1, failure 500 ''Failed to update conversation'')
              | (db1, Inr False) \<Rightarrow> (db1, failure 404 ''Conversation not found'')
              | (db1, Inr True) \<Rightarrow>
                  (db1, json 200 [(''success'', JBool True),
                                  (''message'', JStr ''Conversation title updated successfully'')]))"

definition delete_conversation :: "database \<Rightarrow> string \<Rightarrow> database \<times> response" where
  "delete_conversation db ident =
     (if invalid_id ident then (db, failure 400 ''Invalid conversation ID'')
      else case Conversation_delete db (id_of ident) of
             (db1, Inl e) \<Rightarrow> (db1, failure 500 ''Failed to delete conversation'')
           | (db1, Inr False) \<Rightarrow> (db1, failure 404 ''Conversation not found'')
           | (db1, Inr True) \<Rightarrow>
               (db1, json 200 [(''success'', JBool True),
                               (''message'', JStr ''Conversation deleted successfully'')]))"

definition search_conversations ::
  "database \<Rightarrow> string \<Rightarrow> (string \<times> string) list \<Rightarrow> database \<times> response" where
  "search_conversations db query q =
     (let limit = int_param q ''limit'' 20;
          userId = js_or (str_param q ''user_id'') JNull
      in if query = [] \<or> length (trim query) = 0 then (db, failure 400 ''Search query is required'')
         else case Conversation_search db (trim query) userId limit of
                (db1, Inr convs) \<Rightarrow>
                  (db1, json 200 [(''success'', JBool True),
                                  (''data'', JArr (map conversation_json convs)),
                                  (''query'', JStr (trim query)),
                                  (''count'', JNum (int (length convs)))])
              | (db1, Inl e) \<Rightarrow> (db1, failure 500 ''Failed to search conversations''))"


text \<open>
  \<open>add_message\<close> runs behind \<open>validateMessageInput\<close>, which lets through string
  \<open>content\<close> and \<open>type\<close> only.
\<close>

definition add_message :: "database \<Rightarrow> string \<Rightarrow> (string \<times> jv) list \<Rightarrow> database \<times> response" where
  "add_message db ident reqbody =
     (let content = string_of (field reqbody ''content'');
          type = string_of (field reqbody ''type'')
      in if invalid_id ident then (db, failure 400 ''Invalid conversation ID'')
         else case Conversation_findById db (id_of ident) of
                (db1, Inl e) \<Rightarrow> (db1, failure 500 ''Failed to create message'')
              | (db1, Inr None) \<Rightarrow> (db1, failure 404 ''Conversation not found'')
              | (db1, Inr (Some conversation)) \<Rightarrow>
                  (case Message_create db1 (id_of ident) (trim content) type of
                     (db2, Inr message) \<Rightarrow>
                       (db2, json 201 [(''success'', JBool True), (''data'', message_json message)])
                   | (db2, Inl e) \<Rightarrow> (db2, failure 500 ''Failed to create message'')))"

definition list_messages ::
  "database \<Rightarrow> string \<Rightarrow> (string \<times> string) list \<Rightarrow> database \<times> response" where
  "list_messages db ident q =
     (let limit = int_param q ''limit'' 100;
          offset = int_param q ''offset'' 0
      in if invalid_id ident then (db, failure 400 ''Invalid conversation ID'')
         else case Conversation_findById db (id_of ident) of
                (db1, Inl e) \<Rightarrow> (db1, failure 500 ''Failed to fetch messages'')
              | (db1, Inr None) \<Rightarrow> (db1, failure 404 ''Conversation not found'')
              | (db1, Inr (Some conversation)) \<Rightarrow>
                  (case Message_findByConversationId db1 (id_of ident) limit offset of
                     (db2, Inr msgs) \<Rightarrow>
                       (db2, json 200 [(''success'', JBool True),
                                       (''data'', JArr (map message_json msgs)),
                                       (''pagination'', JObj [(''limit'', num_param limit),
                                                              (''offset'', num_param offset),
                                                              (''count'', JNum (int (length msgs)))])])
                   | (db2, Inl e) \<Rightarrow> (db2, failure 500 ''Failed to fetch messages'')))"

definition recent_messages ::
  "database \<Rightarrow> string \<Rightarrow> (string \<times> string) list \<Rightarrow> database \<times> response" where
  "recent_messages db ident q =
     (let cnt = int_param q ''count'' 50
      in if invalid_id ident then (db, failure 400 ''Invalid conversation ID'')
         else case Conversation_findById db (id_of ident) of
                (db1, Inl e) \<Rightarrow> (db1, failure 500 ''Failed to fetch recent messages'')
              | (db1, Inr None) \<Rightarrow> (db1, failure 404 ''Conversation not found'')
              | (db1, Inr (Some conversation)) \<Rightarrow>
                  (case Message_getRecentMessages db1 (id_of ident) cnt of
                     (db2, Inr msgs) \<Rightarrow>
                       (db2, json 200 [(''success'', JBool True),
                                       (''data'', JArr (map message_json msgs)),
                                       (''count'', JNum (int (length msgs)))])
                   | (db2, Inl e) \<Rightarrow> (db2, failure 500 ''Failed to fetch recent messages'')))"

text \<open>\<open>Promise.all\<close> starts both queries and rejects when either of them does.\<close>

definition conversation_stats :: "database \<Rightarrow> string \<Rightarrow> database \<times> response" where
  "conversation_stats db ident =
     (if invalid_id ident then (db, failure 400 ''Invalid conversation ID'')
      else case Conversation_findById db (id_of ident) of
             (db1, Inl e) \<Rightarrow> (db1, failure 500 ''Failed to fetch statistics'')
           | (db1, Inr None) \<Rightarrow> (db1, failure 404 ''Conversation not found'')
           | (db1, Inr (Some conversation)) \<Rightarrow>
               (case Conversation_getStats db1 (JNum (id_of ident)) of
                  (db2, convStats) \<Rightarrow>
                    (case Message_getStats db2 (Some (id_of ident)) of
                       (db3, msgStats) \<Rightarrow>
                         (case (convStats, msgStats) of
                            (Inr c, Inr m) \<Rightarrow>
                              (db3, json 200 [(''success'', JBool True),
                                              (''data'', JObj [(''conversation'', c),
                                                               (''messages'', m)])])
                          | _ \<Rightarrow> (db3, failure 500 ''Failed to fetch statistics'')))))"

definition overall_stats :: "database \<Rightarrow> (string \<times> string) list \<Rightarrow> database \<times> response" where
  "overall_stats db q =
     (let userId = js_or (str_param q ''user_id'') JNull
      in case Conversation_getStats db userId of
           (db1, convStats) \<Rightarrow>
             (case Message_getStats db1 None of
                (db2, msgStats) \<Rightarrow>
                  (case (convStats, msgStats) of
                     (Inr c, Inr m) \<Rightarrow>
                       (db2, json 200 [(''success'', JBool True),
                                       (''data'', JObj [(''conversations'', c),
                                                        (''messages'', m)])])
                   | _ \<Rightarrow> (db2, failure 500 ''Failed to fetch statistics''))))"

definition endpoint_not_found :: response where
  "endpoint_not_found = failure 404 ''Endpoint not found''"

subsection \<open>The router\<close>

text \<open>A request after route matching: path parameters, query string and JSON body.\<close>

datatype request =
    GET_health
  | POST_conversations "(string \<times> jv) list"
  | GET_conversations "(string \<times> string) list"
  | GET_conversation string
  | PUT_conversation string "(string \<times> jv) list"
  | DELETE_conversation string
  | GET_conversations_search string "(string \<times> string) list"
  | POST_messages string "(string \<times> jv) list"
  | GET_messages string "(string \<times> string) list"
  | GET_messages_recent string "(string \<times> string) list"
  | GET_conversation_stats string
  | GET_stats "(string \<times> string) list"
  | Undefined_route

fun middleware :: "request \<Rightarrow> response option" where
  "middleware (POST_conversations b) = validateConversationInput b"
| "middleware (PUT_conversation i b) = validateConversationInput b"
| "middleware (POST_messages i b) = validateMessageInput b"
| "middleware _ = None"

fun handler :: "database \<Rightarrow> request \<Rightarrow> database \<times> response" where
  "handler db GET_health = health db"
| "handler db (POST_conversations b) = create_conversation db b"
| "handler db (GET_conversations q) = list_conversations db q"
| "handler db (GET_conversation i) = get_conversation db i"
| "handler db (PUT_conversation i b) = update_conversation db i b"
| "handler db (DELETE_conversation i) = delete_conversation db i"
| "handler db (GET_conversations_search s q) = search_conversations db s q"
| "handler db (POST_messages i b) = add_message db i b"
| "handler db (GET_messages i q) = list_messages db i q"
| "handler db (GET_messages_recent i q) = recent_messages db i q"
| "handler db (GET_conversation_stats i) = conversation_stats db i"
| "handler db (GET_stats q) = overall_stats db q"
| "handler db Undefined_route = (db, endpoint_not_found)"

definition router :: "database \<Rightarrow> request \<Rightarrow> database \<times> response" where
  "router db r = (case middleware r of Some answer \<Rightarrow> (db, answer) | None \<Rightarrow> handler db r)"

subsection \<open>The server in front of the router\<close>

text \<open>
  The rate limiter of \<open>server.js\<close> answers itself once a client has made more than
  \<open>limit\<close> requests in the window; \<open>hits\<close> counts the client's requests including this one.
\<close>

definition too_many_requests :: response where
  "too_many_requests =
     json 429 [(''error'', JStr ''Too many requests from this IP, please try again later.'')]"

definition limiter :: "nat \<Rightarrow> nat \<Rightarrow> response option" where
  "limiter limit hits = (if limit < hits then Some too_many_requests else None)"

definition api :: "nat \<Rightarrow> nat \<Rightarrow> database \<Rightarrow> request \<Rightarrow> database \<times> response" where
  "api limit hits db r =
     (case limiter limit hits of Some answer \<Rightarrow> (db, answer) | None \<Rightarrow> router db r)"

text \<open>The catch-all of \<open>server.js\<close>, for paths outside \<open>/api\<close>.\<close>

definition app_not_found :: "string \<Rightarrow> string \<Rightarrow> response" where
  "app_not_found path method =
     json 404 [(''error'', JStr ''Endpoint not found''), (''path'', JStr path),
               (''method'', JStr method)]"


section \<open>The client persistence service\<close>

subsection \<open>Local storage\<close>

text \<open>
  The two kinds of item the service keeps in \<open>localStorage\<close>: the conversation list under
  \<open>agrichat_conversations\<close> and one message list per conversation under
  \<open>agrichat_messages_<id>\<close>; \<open>None\<close> is an absent key. The items are kept as the records
  the service writes. \<open>quota_exceeded\<close> says that the browser refuses writes:
  \<open>setItem\<close> then throws.

  The model is of the service on its own data: titles, contents, types and queries are
  strings, identifiers are numbers, and a stored item is a list the service has written,
  so that \<open>JSON.parse\<close> succeeds on it. What the methods do with a title or a query that
  is not a string (\<open>toLowerCase\<close> is then a \<open>TypeError\<close>) or with an item that does not
  parse is outside the model; nothing below is stated about those inputs.
\<close>

record local_conversation =
  lc_id :: int
  lc_title :: string
  lc_created_at :: int
  lc_updated_at :: int
  lc_message_count :: nat

record local_message =
  lm_id :: int
  lm_conversation_id :: int
  lm_content :: string
  lm_type :: string
  lm_timestamp :: int

record localStorage =
  agrichat_conversations :: "local_conversation list option"
  agrichat_messages :: "int \<Rightarrow> local_message list option"
  quota_exceeded :: bool

definition setItem_conversations ::
  "localStorage \<Rightarrow> local_conversation list \<Rightarrow> js_error + localStorage" where
  "setItem_conversations ls cs =
     (if quota_exceeded ls then Inl QuotaExceededError
      else Inr (ls\<lparr>agrichat_conversations := Some cs\<rparr>))"

definition setItem_messages ::
  "localStorage \<Rightarrow> int \<Rightarrow> local_message list \<Rightarrow> js_error + localStorage" where
  "setItem_messages ls cid ms =
     (if quota_exceeded ls then Inl QuotaExceededError
      else Inr (ls\<lparr>agrichat_messages := (agrichat_messages ls)(cid := Some ms)\<rparr>))"

definition removeItem_messages :: "localStorage \<Rightarrow> int \<Rightarrow> localStorage" where
  "removeItem_messages ls cid = ls\<lparr>agrichat_messages := (agrichat_messages ls)(cid := None)\<rparr>"

text \<open>
  \<open>Storage.set\<close> of \<open>utils.js\<close>, the storage helper of the same application: it wraps
  \<open>localStorage.setItem\<close> in \<open>try\<close> and returns \<open>false\<close> when the write throws.
\<close>

datatype item =
    Conversations_item "local_conversation list"
  | Messages_item int "local_message list"

definition setItem :: "localStorage \<Rightarrow> item \<Rightarrow> js_error + localStorage" where
  "setItem ls it =
     (case it of
        Conversations_item cs \<Rightarrow> setItem_conversations ls cs
      | Messages_item cid ms \<Rightarrow> setItem_messages ls cid ms)"

definition Storage_set :: "localStorage \<Rightarrow> item \<Rightarrow> localStorage \<times> bool" where
  "Storage_set ls it = (case setItem ls it of Inl e \<Rightarrow> (ls, False) | Inr ls1 \<Rightarrow> (ls1, True))"

text \<open>\<open>JSON.parse(localStorage.getItem(key) || '[]')\<close>\<close>

definition stored_conversations :: "localStorage \<Rightarrow> local_conversation list" where
  "stored_conversations ls = (case agrichat_conversations ls of None \<Rightarrow> [] | Some cs \<Rightarrow> cs)"

definition stored_messages :: "localStorage \<Rightarrow> int \<Rightarrow> local_message list" where
  "stored_messages ls cid = (case agrichat_messages ls cid of None \<Rightarrow> [] | Some ms \<Rightarrow> ms)"

definition local_conversation_json :: "local_conversation \<Rightarrow> jv" where
  "local_conversation_json c =
     JObj [(''id'', JNum (lc_id c)),
           (''title'', JStr (lc_title c)),
           (''created_at'', JDate (lc_created_at c)),
           (''updated_at'', JDate (lc_updated_at c)),
           (''message_count'', JNum (int (lc_message_count c)))]"

definition local_message_json :: "local_message \<Rightarrow> jv" where
  "local_message_json m =
     JObj [(''id'', JNum (lm_id m)),
           (''conversation_id'', JNum (lm_conversation_id m)),
           (''content'', JStr (lm_content m)),
           (''type'', JStr (lm_type m)),
           (''timestamp'', JDate (lm_timestamp m))]"

text \<open>
  What the browser supplies to one call: \<open>now\<close> is \<open>new Date()\<close>, \<open>fresh\<close> the number
  \<open>Date.now() + Math.random()\<close> that becomes an identifier.
\<close>

record browser =
  now :: int
  fresh :: int

subsection \<open>Fallback methods\<close>

text \<open>
  Each returns the storage it leaves behind and either the object it returns or the
  exception it throws.
\<close>

definition getLocalConversations :: "localStorage \<Rightarrow> jv" where
  "getLocalConversations ls =
     JObj [(''success'', JBool True),
           (''conversations'', JArr (map local_conversation_json (stored_conversations ls)))]"

definition getLocalMessages :: "localStorage \<Rightarrow> int \<Rightarrow> jv" where
  "getLocalMessages ls conversationId =
     JObj [(''success'', JBool True),
           (''messages'', JArr (map local_message_json (stored_messages ls conversationId)))]"

definition createLocalConversation ::
  "localStorage \<Rightarrow> browser \<Rightarrow> string \<Rightarrow> localStorage \<times> (js_error + jv)" where
  "createLocalConversation ls env title =
     (let conversation = \<lparr>lc_id = fresh env, lc_title = title, lc_created_at = now env,
                           lc_updated_at = now env, lc_message_count = 0\<rparr>
      in case setItem_conversations ls (conversation # stored_conversations ls) of
           Inl e \<Rightarrow> (ls, Inl e)
         | Inr ls1 \<Rightarrow>
             (ls1, Inr (JObj [(''success'', JBool True),
                              (''conversation'', local_conversation_json conversation)])))"

text \<open>\<open>conversations.find(c => c.id == conversationId)\<close> and the update of what it finds.\<close>

fun update_first :: "('a \<Rightarrow> bool) \<Rightarrow> ('a \<Rightarrow> 'a) \<Rightarrow> 'a list \<Rightarrow> 'a list" where
  "update_first P f [] = []"
| "update_first P f (x # xs) = (if P x then f x # xs else x # update_first P f xs)"

definition updateLocalConversationTimestamp ::
  "localStorage \<Rightarrow> browser \<Rightarrow> int \<Rightarrow> js_error + localStorage" where
  "updateLocalConversationTimestamp ls env conversationId =
     (let cs = stored_conversations ls
      in case find (\<lambda>c. lc_id c = conversationId) cs of
           Some conversation \<Rightarrow>
             setItem_conversations ls
               (update_first (\<lambda>c. lc_id c = conversationId)
                  (\<lambda>c. c\<lparr>lc_updated_at := now env, lc_message_count := lc_message_count c + 1\<rparr>) cs)
         | None \<Rightarrow> Inr ls)"

definition addLocalMessage ::
  "localStorage \<Rightarrow> browser \<Rightarrow> int \<Rightarrow> string \<Rightarrow> string \<Rightarrow> localStorage \<times> (js_error + jv)" where
  "addLocalMessage ls env conversationId content type =
     (let message = \<lparr>lm_id = fresh env, lm_conversation_id = conversationId,
                      lm_content = content, lm_type = type, lm_timestamp = now env\<rparr>
      in case setItem_messages ls conversationId (stored_messages ls conversationId @ [message]) of
           Inl e \<Rightarrow> (ls, Inl e)
         | Inr ls1 \<Rightarrow>
             (case updateLocalConversationTimestamp ls1 env conversationId of
                Inl e \<Rightarrow> (ls1, Inl e)
              | Inr ls2 \<Rightarrow>
                  (ls2, Inr (JObj [(''success'', JBool True),
                                   (''message'', local_message_json message)]))))"

definition updateLocalConversationTitle ::
  "localStorage \<Rightarrow> browser \<Rightarrow> int \<Rightarrow> string \<Rightarrow> localStorage \<times> (js_error + jv)" where
  "updateLocalConversationTitle ls env conversationId title =
     (let cs = stored_conversations ls
      in case find (\<lambda>c. lc_id c = conversationId) cs of
           Some conversation \<Rightarrow>
             (case setItem_conversations ls
                     (update_first (\<lambda>c. lc_id c = conversationId)
                        (\<lambda>c. c\<lparr>lc_title := title, lc_updated_at := now env\<rparr>) cs) of
                Inl e \<Rightarrow> (ls, Inl e)
              | Inr ls1 \<Rightarrow> (ls1, Inr (JObj [(''success'', JBool True)])))
         | None \<Rightarrow> (ls, Inr (JObj [(''success'', JBool False)])))"

definition deleteLocalConversation :: "localStorage \<Rightarrow> int \<Rightarrow> localStorage \<times> (js_error + jv)" where
  "deleteLocalConversation ls conversationId =
     (let filtered = filter (\<lambda>c. lc_id c \<noteq> conversationId) (stored_conversations ls)
      in case setItem_conversations ls filtered of
           Inl e \<Rightarrow> (ls, Inl e)
         | Inr ls1 \<Rightarrow>
             (removeItem_messages ls1 conversationId, Inr (JObj [(''success'', JBool True)])))"

definition searchLocalConversations :: "localStorage \<Rightarrow> string \<Rightarrow> jv" where
  "searchLocalConversations ls query =
     (let filtered = filter (\<lambda>c. str_includes (toLowerCase (lc_title c)) (toLowerCase query))
                       (stored_conversations ls)
      in JObj [(''success'', JBool True),
               (''conversations'', JArr (map local_conversation_json filtered)),
               (''query'', JStr query),
               (''count'', JNum (int (length filtered)))])"

definition getLocalConversationStats :: "localStorage \<Rightarrow> int \<Rightarrow> jv" where
  "getLocalConversationStats ls conversationId =
     (let msgs = stored_messages ls conversationId;
          userMessages = length (filter (\<lambda>m. lm_type m = ''user'') msgs);
          aiMessages = length (filter (\<lambda>m. lm_type m = ''ai'') msgs);
          errorMessages = length (filter (\<lambda>m. lm_type m = ''error'') msgs)
      in JObj [(''success'', JBool True),
               (''stats'', JObj
                  [(''conversation'', JObj [(''message_count'', JNum (int (length msgs)))]),
                   (''messages'', JObj [(''total_messages'', JNum (int (length msgs))),
                                        (''user_messages'', JNum (int userMessages)),
                                        (''ai_messages'', JNum (int aiMessages)),
                                        (''error_messages'', JNum (int errorMessages))])])])"


subsection \<open>Public methods\<close>

text \<open>
  What one \<open>fetch\<close> comes to: a transport failure, or a response with its status and its
  body as JSON (\<open>None\<close> when the body does not parse, so that \<open>response.json()\<close> throws).
\<close>

datatype fetch_outcome = Fetch_failed | Fetch_response nat "jv option"

definition response_ok :: "nat \<Rightarrow> bool" where
  "response_ok code = (200 \<le> code \<and> code \<le> 299)"

text \<open>\<open>await fetch(...)\<close> followed by \<open>if (!response.ok) throw\<close>.\<close>

definition fetch_checked :: "fetch_outcome \<Rightarrow> js_error + jv option" where
  "fetch_checked net =
     (case net of
        Fetch_failed \<Rightarrow> Inl NetworkError
      | Fetch_response code b \<Rightarrow> if \<not> response_ok code then Inl (HttpError code) else Inr b)"

text \<open>The same followed by \<open>await response.json()\<close>.\<close>

definition fetch_json :: "fetch_outcome \<Rightarrow> js_error + jv" where
  "fetch_json net =
     (case fetch_checked net of
        Inl e \<Rightarrow> Inl e
      | Inr None \<Rightarrow> Inl SyntaxError
      | Inr (Some result) \<Rightarrow> Inr result)"

record service =
  currentConversationId :: jv
  isConnected :: bool

text \<open>
  A public method is \<open>async\<close>: \<open>Inr v\<close> is a promise resolved to \<open>v\<close>, \<open>Inl e\<close> a promise
  rejected with \<open>e\<close>. Each takes the outcome \<open>net\<close> of the one request it may send.
\<close>

type_synonym outcome = "(service \<times> localStorage) \<times> (js_error + jv)"

definition on_storage :: "service \<Rightarrow> localStorage \<times> (js_error + jv) \<Rightarrow> outcome" where
  "on_storage svc r = ((svc, fst r), snd r)"

definition createConversation ::
  "service \<Rightarrow> localStorage \<Rightarrow> browser \<Rightarrow> fetch_outcome \<Rightarrow> string option \<Rightarrow> outcome" where
  "createConversation svc ls env net title0 =
     (let title = (case title0 of None \<Rightarrow> ''New Conversation'' | Some t \<Rightarrow> t)
      in if \<not> isConnected svc then on_storage svc (createLocalConversation ls env title)
         else case (case fetch_json net of
                      Inl e \<Rightarrow> Inl e
                    | Inr result \<Rightarrow>
                        (case get_prop result ''data'' of
                           Inl e \<Rightarrow> Inl e
                         | Inr d \<Rightarrow>
                             (case get_prop d ''id'' of
                                Inl e \<Rightarrow> Inl e
                              | Inr i \<Rightarrow>
                                  Inr (svc\<lparr>currentConversationId := i\<rparr>,
                                       JObj [(''success'', JBool True), (''conversation'', d)])))) of
                Inr (svc1, v) \<Rightarrow> ((svc1, ls), Inr v)
              | Inl e \<Rightarrow> on_storage svc (createLocalConversation ls env title))"

definition getConversations ::
  "service \<Rightarrow> localStorage \<Rightarrow> fetch_outcome \<Rightarrow> int \<Rightarrow> int \<Rightarrow> outcome" where
  "getConversations svc ls net limit offset =
     (if \<not> isConnected svc then ((svc, ls), Inr (getLocalConversations ls))
      else case (case fetch_json net of
                   Inl e \<Rightarrow> Inl e
                 | Inr result \<Rightarrow>
                     (case get_prop result ''data'' of
                        Inl e \<Rightarrow> Inl e
                      | Inr d \<Rightarrow>
                          (case get_prop result ''pagination'' of
                             Inl e \<Rightarrow> Inl e
                           | Inr pg \<Rightarrow>
                               Inr (JObj [(''success'', JBool True), (''conversations'', d),
                                          (''pagination'', pg)])))) of
             Inr v \<Rightarrow> ((svc, ls), Inr v)
           | Inl e \<Rightarrow> ((svc, ls), Inr (getLocalConversations ls)))"

definition getMessages ::
  "service \<Rightarrow> localStorage \<Rightarrow> fetch_outcome \<Rightarrow> int \<Rightarrow> int \<Rightarrow> int \<Rightarrow> outcome" where
  "getMessages svc ls net conversationId limit offset =
     (if \<not> isConnected svc then ((svc, ls), Inr (getLocalMessages ls conversationId))
      else case (case fetch_json net of
                   Inl e \<Rightarrow> Inl e
                 | Inr result \<Rightarrow>
                     (case get_prop result ''data'' of
                        Inl e \<Rightarrow> Inl e
                      | Inr d \<Rightarrow>
                          (case get_prop result ''pagination'' of
                             Inl e \<Rightarrow> Inl e
                           | Inr pg \<Rightarrow>
                               Inr (JObj [(''success'', JBool True), (''messages'', d),
                                          (''pagination'', pg)])))) of
             Inr v \<Rightarrow> ((svc, ls), Inr v)
           | Inl e \<Rightarrow> ((svc, ls), Inr (getLocalMessages ls conversationId)))"

definition addMessage ::
  "service \<Rightarrow> localStorage \<Rightarrow> browser \<Rightarrow> fetch_outcome \<Rightarrow> int \<Rightarrow> string \<Rightarrow> string \<Rightarrow> outcome" where
  "addMessage svc ls env net conversationId content type =
     (if \<not> isConnected svc
      then on_storage svc (addLocalMessage ls env conversationId content type)
      else case (case fetch_json net of
                   Inl e \<Rightarrow> Inl e
                 | Inr result \<Rightarrow>
                     (case get_prop result ''data'' of
                        Inl e \<Rightarrow> Inl e
                      | Inr d \<Rightarrow> Inr (JObj [(''success'', JBool True), (''message'', d)]))) of
             Inr v \<Rightarrow> ((svc, ls), Inr v)
           | Inl e \<Rightarrow> on_storage svc (addLocalMessage ls env conversationId content type))"

definition updateConversationTitle ::
  "service \<Rightarrow> localStorage \<Rightarrow> browser \<Rightarrow> fetch_outcome \<Rightarrow> int \<Rightarrow> string \<Rightarrow> outcome" where
  "updateConversationTitle svc ls env net conversationId title =
     (if \<not> isConnected svc
      then on_storage svc (updateLocalConversationTitle ls env conversationId title)
      else case fetch_checked net of
             Inr b \<Rightarrow> ((svc, ls), Inr (JObj [(''success'', JBool True)]))
           | Inl e \<Rightarrow> on_storage svc (updateLocalConversationTitle ls env conversationId title))"

definition deleteConversation ::
  "service \<Rightarrow> localStorage \<Rightarrow> fetch_outcome \<Rightarrow> int \<Rightarrow> outcome" where
  "deleteConversation svc ls net conversationId =
     (if \<not> isConnected svc then on_storage svc (deleteLocalConversation ls conversationId)
      else case fetch_checked net of
             Inr b \<Rightarrow> ((svc, ls), Inr (JObj [(''success'', JBool True)]))
           | Inl e \<Rightarrow> on_storage svc (deleteLocalConversation ls conversationId))"

definition searchConversations ::
  "service \<Rightarrow> localStorage \<Rightarrow> fetch_outcome \<Rightarrow> string \<Rightarrow> int \<Rightarrow> outcome" where
  "searchConversations svc ls net query limit =
     (if \<not> isConnected svc then ((svc, ls), Inr (searchLocalConversations ls query))
      else case (case fetch_json net of
                   Inl e \<Rightarrow> Inl e
                 | Inr result \<Rightarrow>
                     (case get_prop result ''data'' of
                        Inl e \<Rightarrow> Inl e
                      | Inr d \<Rightarrow>
                          (case get_prop result ''query'' of
                             Inl e \<Rightarrow> Inl e
                           | Inr qr \<Rightarrow>
                               (case get_prop result ''count'' of
                                  Inl e \<Rightarrow> Inl e
                                | Inr n \<Rightarrow>
                                    Inr (JObj [(''success'', JBool True), (''conversations'', d),
                                               (''query'', qr), (''count'', n)]))))) of
             Inr v \<Rightarrow> ((svc, ls), Inr v)
           | Inl e \<Rightarrow> ((svc, ls), Inr (searchLocalConversations ls query)))"

definition getConversationStats ::
  "service \<Rightarrow> localStorage \<Rightarrow> fetch_outcome \<Rightarrow> int \<Rightarrow> outcome" where
  "getConversationStats svc ls net conversationId =
     (if \<not> isConnected svc then ((svc, ls), Inr (getLocalConversationStats ls conversationId))
      else case (case fetch_json net of
                   Inl e \<Rightarrow> Inl e
                 | Inr result \<Rightarrow>
                     (case get_prop result ''data'' of
                        Inl e \<Rightarrow> Inl e
                      | Inr d \<Rightarrow> Inr (JObj [(''success'', JBool True), (''stats'', d)]))) of
             Inr v \<Rightarrow> ((svc, ls), Inr v)
           | Inl e \<Rightarrow> ((svc, ls), Inr (getLocalConversationStats ls conversationId)))"

text \<open>One call of a public method, with its arguments.\<close>

datatype call =
    CreateConversation "string option"
  | GetConversations int int
  | GetMessages int int int
  | AddMessage int string string
  | UpdateConversationTitle int string
  | DeleteConversation int
  | SearchConversations string int
  | GetConversationStats int

fun invoke :: "service \<Rightarrow> localStorage \<Rightarrow> browser \<Rightarrow> fetch_outcome \<Rightarrow> call \<Rightarrow> outcome" where
  "invoke svc ls env net (CreateConversation t) = createConversation svc ls env net t"
| "invoke svc ls env net (GetConversations l off) = getConversations svc ls net l off"
| "invoke svc ls env net (GetMessages c l off) = getMessages svc ls net c l off"
| "invoke svc ls env net (AddMessage c content type) = addMessage svc ls env net c content type"
| "invoke svc ls env net (UpdateConversationTitle c t) = updateConversationTitle svc ls env net c t"
| "invoke svc ls env net (DeleteConversation c) = deleteConversation svc ls net c"
| "invoke svc ls env net (SearchConversations q l) = searchConversations svc ls net q l"
| "invoke svc ls env net (GetConversationStats c) = getConversationStats svc ls net c"

subsection \<open>Input validation of the presentation layer\<close>

text \<open>
  \<open>StringUtils.isValidInput\<close> and \<open>ValidationUtils.isValidMessage\<close> of \<open>utils.js\<close>, which
  the chat form applies to the text before it sends it.
\<close>

definition isValidInput :: "string \<Rightarrow> bool" where
  "isValidInput text = (text \<noteq> [] \<and> 0 < length (trim text) \<and> length text \<le> 1000)"

definition isValidMessage :: "string \<Rightarrow> bool" where
  "isValidMessage message = (isValidInput message \<and> 3 \<le> length message)"


text \<open>
  The request falls back to local storage: the service is not connected, or its one
  request fails in transport or with a status outside 2xx.
\<close>

definition falls_back :: "service \<Rightarrow> fetch_outcome \<Rightarrow> bool" where
  "falls_back svc net = (\<not> isConnected svc \<or> (case fetch_checked net of Inl e \<Rightarrow> True | Inr b \<Rightarrow> False))"

section \<open>Response shapes\<close>

text \<open>
  The envelope \<open>{ success: boolean, data?: ..., error?: string }\<close>: an object with a
  boolean \<open>success\<close>, and with a string \<open>error\<close> when \<open>success\<close> is false.
\<close>

definition envelope :: "response \<Rightarrow> bool" where
  "envelope r =
     (case body r of
        JObj fs \<Rightarrow>
          (case map_of fs ''success'' of
             Some (JBool b) \<Rightarrow>
               b \<or> (case map_of fs ''error'' of Some (JStr m) \<Rightarrow> True | _ \<Rightarrow> False)
           | _ \<Rightarrow> False)
      | _ \<Rightarrow> False)"

text \<open>The pagination metadata: an object \<open>pagination\<close> with \<open>limit\<close>, \<open>offset\<close> and \<open>count\<close>.\<close>

definition paginated :: "response \<Rightarrow> bool" where
  "paginated r =
     (case body r of
        JObj fs \<Rightarrow>
          (case map_of fs ''pagination'' of
             Some pg \<Rightarrow> has_field pg ''limit'' \<and> has_field pg ''offset'' \<and> has_field pg ''count''
           | None \<Rightarrow> False)
      | _ \<Rightarrow> False)"

text \<open>
  A top-level \<open>count\<close> beside a list in \<open>data\<close>: the number of entries of the list.
\<close>

definition counted :: "response \<Rightarrow> bool" where
  "counted r =
     (case body r of
        JObj fs \<Rightarrow>
          (case map_of fs ''data'' of
             Some (JArr xs) \<Rightarrow> map_of fs ''count'' = Some (JNum (int (length xs)))
           | _ \<Rightarrow> False)
      | _ \<Rightarrow> False)"

section \<open>Sample data\<close>

text \<open>The rows \<open>schema.sql\<close> inserts for testing, at a later time of day.\<close>

definition sample_database :: database where
  "sample_database =
     \<lparr>users = [],
      conversations =
        [\<lparr>c_id = 1, c_user_id = None, c_title = Some ''Sample Conversation'',
          c_created_at = 1000, c_updated_at = 1120\<rparr>],
      messages =
        [\<lparr>m_id = 1, m_conversation_id = 1,
          m_content = ''Hello! How can I help you with farming today?'',
          m_type = ''ai'', m_timestamp = 1000\<rparr>,
         \<lparr>m_id = 2, m_conversation_id = 1,
          m_content = ''I need help with tomato planting'',
          m_type = ''user'', m_timestamp = 1060\<rparr>,
         \<lparr>m_id = 3, m_conversation_id = 1,
          m_content = ''Great question! Tomatoes need well-draining soil.'',
          m_type = ''ai'', m_timestamp = 1120\<rparr>],
      next_conversation_id = 2,
      next_message_id = 4,
      clock = 5000,
      faults = [],
      calls = 0\<rparr>"

text \<open>The same conversation as the service keeps it in the browser.\<close>

definition sample_storage :: localStorage where
  "sample_storage =
     \<lparr>agrichat_conversations =
        Some [\<lparr>lc_id = 7, lc_title = ''Sample Conversation'', lc_created_at = 1000,
               lc_updated_at = 1200, lc_message_count = 2\<rparr>],
      agrichat_messages =
        (\<lambda>k. None)(7 := Some
          [\<lparr>lm_id = 8, lm_conversation_id = 7,
            lm_content = ''I need help with tomato planting'',
            lm_type = ''user'', lm_timestamp = 1100\<rparr>,
           \<lparr>lm_id = 9, lm_conversation_id = 7,
            lm_content = ''Great question! Tomatoes need well-draining soil.'',
            lm_type = ''ai'', lm_timestamp = 1200\<rparr>]),
      quota_exceeded = False\<rparr>"

text \<open>The same browser storage once its quota is used up.\<close>

definition full_storage :: localStorage where
  "full_storage = sample_storage\<lparr>quota_exceeded := True\<rparr>"

text \<open>The sample database when the second statement to come fails.\<close>

definition sample_database_failing_second :: database where
  "sample_database_failing_second = sample_database\<lparr>faults := [False, True]\<rparr>"

text \<open>A message text of 1001 characters.\<close>

definition long_content :: string where
  "long_content = replicate 1001 (CHR ''a'')"

definition offline :: service where
  "offline = \<lparr>currentConversationId = JNull, isConnected = False\<rparr>"

definition sample_browser :: browser where
  "sample_browser = \<lparr>now = 9000, fresh = 9001\<rparr>"

section \<open>Statements that run\<close>

lemma db_query_runs:
  "next_statement_runs db \<Longrightarrow> JUndefined \<notin> set params \<Longrightarrow>
   db_query db params = (db\<lparr>calls := Suc (calls db), faults := tl (faults db)\<rparr>, None)"
  by (auto simp: db_query_def next_statement_runs_def split: list.splits)

lemma messages_of_query [simp]:
  "messages_of (db\<lparr>calls := n, faults := fs\<rparr>) cid = messages_of db cid"
  by (simp add: messages_of_def)

section \<open>Validation of a message at the HTTP boundary\<close>

lemma validateMessageInput_type:
  "field reqbody ''type'' \<notin> {JStr ''user'', JStr ''ai'', JStr ''error''} \<Longrightarrow>
   \<exists>r. validateMessageInput reqbody = Some r \<and> status r = 400"
  by (auto simp: validateMessageInput_def json_def Let_def)

lemma validateMessageInput_content:
  "\<forall>s. field reqbody ''content'' = JStr s \<longrightarrow> trim s = [] \<Longrightarrow>
   \<exists>r. validateMessageInput reqbody = Some r \<and> status r = 400"
  by (cases "field reqbody ''content''")
     (auto simp: validateMessageInput_def json_def Let_def string_of_def)

text \<open>
  Claim C8. A request to append a message whose \<open>type\<close> is not one of \<open>user\<close>, \<open>ai\<close>,
  \<open>error\<close>, or whose \<open>content\<close> is missing, not a string, or empty after trimming, is
  answered with status 400, and the database is left exactly as it was: no statement has
  been sent (\<open>calls\<close> is unchanged) and no row has been written.
\<close>

theorem invalid_message_rejected_before_database:
  assumes "field reqbody ''type'' \<notin> {JStr ''user'', JStr ''ai'', JStr ''error''}
           \<or> (\<forall>s. field reqbody ''content'' = JStr s \<longrightarrow> trim s = [])"
  shows "fst (router db (POST_messages ident reqbody)) = db
         \<and> status (snd (router db (POST_messages ident reqbody))) = 400"
  using assms validateMessageInput_type[of reqbody] validateMessageInput_content[of reqbody]
  by (auto simp: router_def)

theorem invalid_message_rejected_before_database_witness:
  "field [(''content'', JStr ''Hello''), (''type'', JStr ''admin'')] ''type''
     \<notin> {JStr ''user'', JStr ''ai'', JStr ''error''}
   \<and> fst (router sample_database
         (POST_messages ''1'' [(''content'', JStr ''Hello''), (''type'', JStr ''admin'')]))
       = sample_database
   \<and> status (snd (router sample_database
         (POST_messages ''1'' [(''content'', JStr ''Hello''), (''type'', JStr ''admin'')]))) = 400"
proof -
  have h: "field [(''content'', JStr ''Hello''), (''type'', JStr ''admin'')] ''type''
     \<notin> {JStr ''user'', JStr ''ai'', JStr ''error''}"
    by (simp add: field_def)
  from invalid_message_rejected_before_database
         [of "[(''content'', JStr ''Hello''), (''type'', JStr ''admin'')]" sample_database "''1''"] h
  show ?thesis by blast
qed

section \<open>The fallback methods of the client service\<close>

lemma local_delete:
  "\<not> quota_exceeded ls \<Longrightarrow>
   snd (deleteLocalConversation ls cid) = Inr (JObj [(''success'', JBool True)])"
  by (simp add: deleteLocalConversation_def setItem_conversations_def Let_def)

lemma local_title_unknown:
  "find (\<lambda>c. lc_id c = cid) (stored_conversations ls) = None \<Longrightarrow>
   updateLocalConversationTitle ls env cid title = (ls, Inr (JObj [(''success'', JBool False)]))"
  by (simp add: updateLocalConversationTitle_def Let_def)

text \<open>
  Claim C9. When a call falls back to local storage (and the browser accepts the write),
  \<open>deleteConversation\<close> resolves to \<open>{success: true}\<close> for every conversation identifier,
  whether or not a conversation with that identifier is stored; the fallback title update
  resolves to \<open>{success: false}\<close> for an identifier that is not stored.
\<close>

theorem fallback_delete_ignores_unknown_id:
  assumes "falls_back svc net" and "\<not> quota_exceeded ls"
  shows "snd (deleteConversation svc ls net cid) = Inr (JObj [(''success'', JBool True)])
         \<and> (find (\<lambda>c. lc_id c = cid) (stored_conversations ls) = None \<longrightarrow>
              snd (updateConversationTitle svc ls env net cid title)
                = Inr (JObj [(''success'', JBool False)]))"
  using assms local_delete[of ls cid] local_title_unknown[of cid ls env title]
  by (auto simp: falls_back_def deleteConversation_def updateConversationTitle_def on_storage_def
           split: sum.splits)

theorem fallback_delete_ignores_unknown_id_witness:
  "falls_back offline Fetch_failed \<and> \<not> quota_exceeded sample_storage
   \<and> find (\<lambda>c. lc_id c = 42) (stored_conversations sample_storage) = None
   \<and> snd (deleteConversation offline sample_storage Fetch_failed 42)
       = Inr (JObj [(''success'', JBool True)])
   \<and> snd (updateConversationTitle offline sample_storage sample_browser Fetch_failed 42 ''Maize'')
       = Inr (JObj [(''success'', JBool False)])"
proof -
  have a: "falls_back offline Fetch_failed"
    by (simp add: falls_back_def offline_def)
  have b: "\<not> quota_exceeded sample_storage"
    by (simp add: sample_storage_def)
  have c: "find (\<lambda>c. lc_id c = 42) (stored_conversations sample_storage) = None"
    by (simp add: stored_conversations_def sample_storage_def)
  from fallback_delete_ignores_unknown_id[OF a b, of 42 sample_browser "''Maize''"] a b c
  show ?thesis by simp
qed

lemma local_add:
  assumes "\<not> quota_exceeded ls"
  shows "\<exists>ls'. addLocalMessage ls env cid content type
           = (ls', Inr (JObj [(''success'', JBool True),
                (''message'', local_message_json
                   \<lparr>lm_id = fresh env, lm_conversation_id = cid, lm_content = content,
                    lm_type = type, lm_timestamp = now env\<rparr>)]))
         \<and> agrichat_messages ls' cid
             = Some (stored_messages ls cid @
                 [\<lparr>lm_id = fresh env, lm_conversation_id = cid, lm_content = content,
                   lm_type = type, lm_timestamp = now env\<rparr>])
         \<and> (find (\<lambda>c. lc_id c = cid) (stored_conversations ls) = None \<longrightarrow>
               agrichat_conversations ls' = agrichat_conversations ls)"
  using assms
  by (auto simp: addLocalMessage_def setItem_messages_def updateLocalConversationTimestamp_def
        setItem_conversations_def stored_conversations_def Let_def
      split: option.splits)

text \<open>
  Claim C10. When a call falls back to local storage (and the browser accepts the write),
  \<open>addMessage\<close> resolves to \<open>{success: true, message}\<close> for every conversation identifier
  and leaves the message appended to the list under that conversation's key. Nothing
  checks that the conversation exists: when no conversation with the identifier is in the
  stored list, the update of the parent's timestamp and message count does nothing and the
  stored list is unchanged.
\<close>

theorem fallback_add_message_without_parent_check:
  assumes "falls_back svc net" and "\<not> quota_exceeded ls"
  shows "\<exists>ls'. addMessage svc ls env net cid content type
           = ((svc, ls'), Inr (JObj [(''success'', JBool True),
                (''message'', local_message_json
                   \<lparr>lm_id = fresh env, lm_conversation_id = cid, lm_content = content,
                    lm_type = type, lm_timestamp = now env\<rparr>)]))
         \<and> agrichat_messages ls' cid
             = Some (stored_messages ls cid @
                 [\<lparr>lm_id = fresh env, lm_conversation_id = cid, lm_content = content,
                   lm_type = type, lm_timestamp = now env\<rparr>])
         \<and> (find (\<lambda>c. lc_id c = cid) (stored_conversations ls) = None \<longrightarrow>
               agrichat_conversations ls' = agrichat_conversations ls)"
proof -
  from assms(1) have "addMessage svc ls env net cid content type
      = on_storage svc (addLocalMessage ls env cid content type)"
    by (auto simp: falls_back_def addMessage_def fetch_json_def split: sum.splits)
  with local_add[OF assms(2), of env cid content type] show ?thesis
    by (auto simp: on_storage_def)
qed

theorem fallback_add_message_without_parent_check_witness:
  "falls_back offline Fetch_failed \<and> \<not> quota_exceeded sample_storage
   \<and> find (\<lambda>c. lc_id c = 42) (stored_conversations sample_storage) = None
   \<and> (\<exists>ls'. addMessage offline sample_storage sample_browser Fetch_failed 42 ''Hello'' ''user''
           = ((offline, ls'), Inr (JObj [(''success'', JBool True),
                (''message'', local_message_json
                   \<lparr>lm_id = 9001, lm_conversation_id = 42, lm_content = ''Hello'',
                    lm_type = ''user'', lm_timestamp = 9000\<rparr>)]))
         \<and> agrichat_messages ls' 42
             = Some [\<lparr>lm_id = 9001, lm_conversation_id = 42, lm_content = ''Hello'',
                      lm_type = ''user'', lm_timestamp = 9000\<rparr>]
         \<and> agrichat_conversations ls' = agrichat_conversations sample_storage)"
proof -
  have a: "falls_back offline Fetch_failed"
    by (simp add: falls_back_def offline_def)
  have b: "\<not> quota_exceeded sample_storage"
    by (simp add: sample_storage_def)
  have c: "find (\<lambda>c. lc_id c = 42) (stored_conversations sample_storage) = None"
    by (simp add: stored_conversations_def sample_storage_def)
  have d: "stored_messages sample_storage 42 = []"
    by (simp add: stored_messages_def sample_storage_def)
  have e: "fresh sample_browser = 9001" "now sample_browser = 9000"
    by (simp_all add: sample_browser_def)
  from fallback_add_message_without_parent_check
         [OF a b, of sample_browser 42 "''Hello''" "''user''"] a b c
  show ?thesis unfolding d e by simp
qed

section \<open>A write that the browser refuses\<close>

text \<open>
  When the browser refuses the write and the call falls back to local storage, the
  exception of \<open>setItem\<close> leaves the fallback method and the public method, whose \<open>try\<close>
  ends before the fallback is called: the promise rejects. The storage helper of
  \<open>utils.js\<close> turns the same exception into the result \<open>false\<close>.
\<close>

lemma rejects_create:
  "quota_exceeded ls \<Longrightarrow> falls_back svc net \<Longrightarrow>
   snd (createConversation svc ls env net t) = Inl QuotaExceededError"
  by (auto simp: falls_back_def createConversation_def fetch_json_def on_storage_def
        createLocalConversation_def setItem_conversations_def Let_def
      split: sum.splits option.splits)

lemma rejects_add:
  "quota_exceeded ls \<Longrightarrow> falls_back svc net \<Longrightarrow>
   snd (addMessage svc ls env net c content type) = Inl QuotaExceededError"
  by (auto simp: falls_back_def addMessage_def fetch_json_def on_storage_def
        addLocalMessage_def setItem_messages_def Let_def
      split: sum.splits option.splits)

lemma rejects_delete:
  "quota_exceeded ls \<Longrightarrow> falls_back svc net \<Longrightarrow>
   snd (deleteConversation svc ls net c) = Inl QuotaExceededError"
  by (auto simp: falls_back_def deleteConversation_def on_storage_def
        deleteLocalConversation_def setItem_conversations_def Let_def
      split: sum.splits option.splits)

lemma Storage_set_reports_failure:
  "quota_exceeded ls \<Longrightarrow> Storage_set ls it = (ls, False)"
  by (cases it)
     (simp_all add: Storage_set_def setItem_def setItem_conversations_def setItem_messages_def)

text \<open>
  Claim C1 does not hold of the code. With the browser's quota used up and the backend
  unavailable, \<open>createConversation\<close> called without a title does not resolve to an
  object with \<open>success: false\<close>: \<open>createLocalConversation\<close> does not catch the exception
  of \<open>setItem\<close>, and the promise rejects with it. So does \<open>addMessage\<close>, through
  \<open>addLocalMessage\<close>. On the same storage \<open>Storage.set\<close> returns \<open>false\<close>.
\<close>

theorem storage_failure_rejects_createConversation:
  "snd (invoke offline full_storage sample_browser Fetch_failed (CreateConversation None))
     = Inl QuotaExceededError
   \<and> snd (invoke offline full_storage sample_browser Fetch_failed
            (AddMessage 7 ''Hello'' ''user'')) = Inl QuotaExceededError
   \<and> snd (Storage_set full_storage (Conversations_item [])) = False"
  by (simp add: createConversation_def addMessage_def offline_def full_storage_def
        on_storage_def createLocalConversation_def addLocalMessage_def
        setItem_conversations_def setItem_messages_def Storage_set_def setItem_def Let_def)

section \<open>Searching conversations\<close>

text \<open>
  The server-side search. A pattern \<open>%q%\<close> matches every text in which \<open>q\<close> occurs up
  to the case of its letters, when \<open>q\<close> has no backslash. So a conversation one of whose
  messages contains the query is returned, and returned once, when the limit leaves room
  for every conversation.
\<close>

lemma like_percent_skip: "like_match ps s \<Longrightarrow> like_match (CHR ''%'' # ps) s"
  by simp

lemma like_percent_drop: "like_match (CHR ''%'' # ps) s \<Longrightarrow> like_match (CHR ''%'' # ps) (a @ s)"
  by (induction a) simp_all

lemma like_percent_all: "like_match ''%'' s"
  by (induction s) simp_all

lemma like_literal:
  assumes "list_all2 ci_eq q q'" and "CHR 0x5C \<notin> set q" and "like_match r s"
  shows "like_match (q @ r) (q' @ s)"
  using assms
proof (induction q q' rule: list_all2_induct)
  case Nil
  then show ?case by simp
next
  case (Cons p ps c cs)
  then have "like_match (ps @ r) (cs @ s)" by simp
  moreover from Cons.prems(1) have "p \<noteq> CHR 0x5C" by auto
  ultimately show ?case using Cons.hyps(1) by simp
qed

lemma like_contains:
  assumes "list_all2 ci_eq q q'" and "CHR 0x5C \<notin> set q"
  shows "like_match (''%'' @ q @ ''%'') (a @ q' @ b)"
proof -
  have "like_match (q @ ''%'') (q' @ b)"
    using assms like_percent_all[of b] by (rule like_literal)
  then have "like_match (CHR ''%'' # q @ ''%'') (q' @ b)"
    by (rule like_percent_skip)
  then have "like_match (CHR ''%'' # q @ ''%'') (a @ q' @ b)"
    by (rule like_percent_drop)
  then show ?thesis by simp
qed

lemma filter_same_key:
  "distinct (map f xs) \<Longrightarrow> x \<in> set xs \<Longrightarrow> filter (\<lambda>y. f y = f x) xs = [x]"
proof (induction xs)
  case Nil
  then show ?case by simp
next
  case (Cons y ys)
  show ?case
  proof (cases "y = x")
    case True
    with Cons.prems(1) have "filter (\<lambda>z. f z = f x) ys = []"
      by (auto simp: filter_empty_conv image_iff)
    with True show ?thesis by simp
  next
    case False
    with Cons.prems have "x \<in> set ys" "f y \<noteq> f x"
      by (auto simp: image_iff)
    with Cons show ?thesis by simp
  qed
qed

lemma matching_messages_query [simp]:
  "matching_messages (db\<lparr>calls := n, faults := fs\<rparr>) pattern c = matching_messages db pattern c"
  by (simp add: matching_messages_def)

lemma search_hit_query [simp]:
  "search_hit (db\<lparr>calls := n, faults := fs\<rparr>) pattern = search_hit db pattern"
  by (rule ext) (simp add: search_hit_def)

lemma hit_by_content:
  assumes "m \<in> set (messages db)" and "m_conversation_id m = c_id c"
      and "like_match pattern (m_content m)"
  shows "search_hit db pattern c"
proof (cases "sql_like (c_title c) pattern")
  case True
  then show ?thesis by (simp add: search_hit_def)
next
  case False
  from assms have "m \<in> set (matching_messages db pattern c)"
    by (simp add: matching_messages_def messages_of_def False)
  then have "matching_messages db pattern c \<noteq> []" by auto
  then show ?thesis by (simp add: search_hit_def)
qed

lemma search_runs:
  assumes "next_statement_runs db" and "0 \<le> limit"
  shows "snd (Conversation_search db query JNull (Some limit))
           = Inr (take (nat limit)
               (order_by_desc view_updated_at
                  (map (\<lambda>c. group_view c (matching_messages db (''%'' @ query @ ''%'') c))
                     (filter (search_hit db (''%'' @ query @ ''%'')) (conversations db)))))"
  using assms
  by (simp add: Conversation_search_def js_default_def db_query_runs num_param_def limit_ok_def
        limit_of_def user_filter_def Let_def)

lemma count_in_ordered:
  "length (filter P (order_by_desc k xs)) = length (filter P xs)"
proof -
  have "mset (filter P (order_by_desc k xs)) = mset (filter P xs)"
    by (simp add: order_by_desc_def)
  then show ?thesis by (metis size_mset)
qed

lemma server_search_returns_once:
  assumes ids: "distinct (map c_id (conversations db))"
      and c: "c \<in> set (conversations db)"
      and m: "m \<in> set (messages db)" "m_conversation_id m = c_id c"
      and occurs: "m_content m = a @ q' @ b" "list_all2 ci_eq query q'"
      and plain: "CHR 0x5C \<notin> set query"
      and runs: "next_statement_runs db"
      and room: "int (length (conversations db)) \<le> limit"
  shows "\<exists>rows. snd (Conversation_search db query JNull (Some limit)) = Inr rows
           \<and> length (filter (\<lambda>v. c_id (fst v) = c_id c) rows) = 1"
proof -
  let ?pat = "''%'' @ query @ ''%''"
  let ?hits = "filter (search_hit db ?pat) (conversations db)"
  let ?views = "map (\<lambda>c. group_view c (matching_messages db ?pat c)) ?hits"
  have lim: "0 \<le> limit" using room by simp
  have "like_match ?pat (m_content m)"
    unfolding occurs(1) using occurs(2) plain by (rule like_contains)
  with m have hit: "search_hit db ?pat c"
    by (rule hit_by_content)
  have "length ?views \<le> length (conversations db)" by simp
  with room have "length ?views \<le> nat limit" by linarith
  then have all: "take (nat limit) (order_by_desc view_updated_at ?views)
                    = order_by_desc view_updated_at ?views"
    by (simp add: order_by_desc_def del: length_map length_filter_le)
  have "filter (\<lambda>v. c_id (fst v) = c_id c) ?views
          = map (\<lambda>c. group_view c (matching_messages db ?pat c))
              (filter (\<lambda>y. c_id y = c_id c) ?hits)"
    by (simp add: filter_map comp_def group_view_def)
  moreover have "filter (\<lambda>y. c_id y = c_id c) ?hits
          = filter (search_hit db ?pat) (filter (\<lambda>y. c_id y = c_id c) (conversations db))"
    by (simp add: conj_commute)
  moreover have "filter (\<lambda>y. c_id y = c_id c) (conversations db) = [c]"
    using ids c by (rule filter_same_key)
  ultimately have "length (filter (\<lambda>v. c_id (fst v) = c_id c) ?views) = 1"
    using hit by simp
  then have "length (filter (\<lambda>v. c_id (fst v) = c_id c)
               (take (nat limit) (order_by_desc view_updated_at ?views))) = 1"
    unfolding all by (simp add: count_in_ordered)
  with search_runs[OF runs lim, of query] show ?thesis by simp
qed

text \<open>
  The server-side search on the sample rows: the text \<open>tomato\<close> is in two messages of the
  conversation and not in its title, and the conversation is returned, once.
\<close>

lemma server_search_finds_message_content:
  "snd (Conversation_search sample_database ''tomato'' JNull (Some 20))
     = Inr [(\<lparr>c_id = 1, c_user_id = None, c_title = Some ''Sample Conversation'',
               c_created_at = 1000, c_updated_at = 1120\<rparr>, 2, Some 1120)]"
  by code_simp

text \<open>
  Claim C4 does not hold of the fallback search. In the sample storage the text \<open>tomato\<close>
  occurs, case-insensitively, in both messages of the stored conversation and not in its
  title; \<open>searchConversations\<close>, falling back to \<open>searchLocalConversations\<close>, returns no
  conversation, because the fallback compares the query with titles only.
\<close>

theorem fallback_search_misses_message_content:
  "str_includes (toLowerCase ''I need help with tomato planting'') (toLowerCase ''tomato'')
   \<and> str_includes (toLowerCase ''Great question! Tomatoes need well-draining soil.'')
        (toLowerCase ''tomato'')
   \<and> \<not> str_includes (toLowerCase ''Sample Conversation'') (toLowerCase ''tomato'')
   \<and> map lm_content (stored_messages sample_storage 7)
       = [''I need help with tomato planting'',
          ''Great question! Tomatoes need well-draining soil.'']
   \<and> map lc_title (stored_conversations sample_storage) = [''Sample Conversation'']
   \<and> snd (searchConversations offline sample_storage Fetch_failed ''tomato'' 20)
       = Inr (JObj [(''success'', JBool True), (''conversations'', JArr []),
                    (''query'', JStr ''tomato''), (''count'', JNum 0)])"
  by code_simp

section \<open>Order of the messages returned\<close>

lemma last_rows: "rev (take k (rev xs)) = drop (length xs - k) xs"
  by (simp add: rev_take)

lemma sorted_tail:
  fixes k :: "'a \<Rightarrow> int"
  assumes "sorted (map k xs)"
  shows "sorted (map k (drop j xs))"
    and "\<forall>m \<in> set (take j xs). \<forall>r \<in> set (drop j xs). k m \<le> k r"
proof -
  from assms have s: "sorted (map k (take j xs) @ map k (drop j xs))"
    by (simp flip: map_append)
  then show "sorted (map k (drop j xs))"
    by (simp add: sorted_append)
  from s show "\<forall>m \<in> set (take j xs). \<forall>r \<in> set (drop j xs). k m \<le> k r"
    by (auto simp: sorted_append)
qed

lemma mset_drop_diff: "mset xs - mset (drop j xs) = mset (take j xs)"
proof -
  have "mset xs = mset (take j xs) + mset (drop j xs)"
    by (metis append_take_drop_id mset_append)
  then show ?thesis by simp
qed

lemma latest_rows:
  fixes ms :: "message_row list" and k :: nat
  defines "rows \<equiv> rev (take k (order_by_desc m_timestamp ms))"
  shows "sorted (map m_timestamp rows)"
    and "length rows = min k (length ms)"
    and "mset rows \<subseteq># mset ms"
    and "\<forall>m \<in># mset ms - mset rows. \<forall>r \<in> set rows. m_timestamp m \<le> m_timestamp r"
proof -
  let ?S = "sort_key m_timestamp ms"
  have rows: "rows = drop (length ?S - k) ?S"
    unfolding rows_def order_by_desc_def by (rule last_rows)
  have srt: "sorted (map m_timestamp ?S)" by simp
  show "sorted (map m_timestamp rows)"
    unfolding rows using sorted_tail(1)[OF srt] .
  show "length rows = min k (length ms)"
    unfolding rows by auto
  have "mset rows \<subseteq># mset ?S"
    unfolding rows by (metis append_take_drop_id mset_append mset_subset_eq_add_right)
  then show "mset rows \<subseteq># mset ms" by simp
  have "mset ms - mset rows = mset (take (length ?S - k) ?S)"
    unfolding rows using mset_drop_diff[of ?S "length ?S - k"] by simp
  then show "\<forall>m \<in># mset ms - mset rows. \<forall>r \<in> set rows. m_timestamp m \<le> m_timestamp r"
    unfolding rows using sorted_tail(2)[OF srt, of "length ?S - k"] by simp
qed

lemma page_rows:
  fixes ms :: "message_row list" and l off :: nat
  defines "rows \<equiv> take l (drop off (order_by_asc m_timestamp ms))"
  shows "sorted (map m_timestamp rows)" and "mset rows \<subseteq># mset ms"
proof -
  let ?S = "sort_key m_timestamp ms"
  have "sorted (map m_timestamp (drop off ?S))"
    using sorted_tail(1)[of m_timestamp ?S off] by simp
  then have "sorted (take l (map m_timestamp (drop off ?S)))"
    by (rule sorted_wrt_take)
  then show "sorted (map m_timestamp rows)"
    unfolding rows_def order_by_asc_def by (simp add: take_map)
  have "mset (take l (drop off ?S)) \<subseteq># mset (drop off ?S)"
    by (metis append_take_drop_id mset_append mset_subset_eq_add_left)
  moreover have "mset (drop off ?S) \<subseteq># mset ?S"
    by (metis append_take_drop_id mset_append mset_subset_eq_add_right)
  ultimately show "mset rows \<subseteq># mset ms"
    unfolding rows_def order_by_asc_def by (metis mset_sort subset_mset.order_trans)
qed

lemma page_position:
  fixes ms :: "message_row list" and l off :: nat
  defines "rows \<equiv> take l (drop off (order_by_asc m_timestamp ms))"
  shows "\<exists>before after.
           sorted (map m_timestamp (before @ rows @ after))
           \<and> mset (before @ rows @ after) = mset ms
           \<and> length before = min off (length ms)
           \<and> length rows = min l (length ms - off)"
proof -
  let ?S = "sort_key m_timestamp ms"
  let ?before = "take off ?S"
  let ?after = "drop l (drop off ?S)"
  have whole: "?before @ rows @ ?after = ?S"
    unfolding rows_def order_by_asc_def by (simp del: drop_drop)
  have "sorted (map m_timestamp (?before @ rows @ ?after))"
    unfolding whole by simp
  moreover have "mset (?before @ rows @ ?after) = mset ms"
    unfolding whole by simp
  moreover have "length ?before = min off (length ms)"
    by (simp add: min.commute)
  moreover have "length rows = min l (length ms - off)"
    unfolding rows_def order_by_asc_def by (simp add: min.commute)
  ultimately show ?thesis by blast
qed

text \<open>
  Claim C7. When the statement runs, the recent-messages query with count \<open>n\<close> returns
  \<open>min n (number of messages of the conversation)\<close> messages of that conversation, in
  ascending order of timestamp, and every message of the conversation it leaves out is no
  later than any message it returns. The plain message-list query with limit \<open>l\<close> and
  offset \<open>off\<close> returns, in ascending order of timestamp, the messages at the positions
  from \<open>off\<close> on, at most \<open>l\<close> of them, of an ascending arrangement of all the messages
  of the conversation: with offset 0 and a limit no smaller than their number, all of them.
\<close>

theorem recent_messages_latest_ascending:
  assumes "next_statement_runs db" and "0 \<le> n" and "0 \<le> l" and "0 \<le> off"
  shows "(\<exists>rows. snd (Message_getRecentMessages db cid (Some n)) = Inr rows
            \<and> sorted (map m_timestamp rows)
            \<and> length rows = min (nat n) (length (messages_of db cid))
            \<and> mset rows \<subseteq># mset (messages_of db cid)
            \<and> (\<forall>m \<in># mset (messages_of db cid) - mset rows.
                  \<forall>r \<in> set rows. m_timestamp m \<le> m_timestamp r))
       \<and> (\<exists>rows. snd (Message_findByConversationId db cid (Some l) (Some off)) = Inr rows
            \<and> sorted (map m_timestamp rows)
            \<and> mset rows \<subseteq># mset (messages_of db cid)
            \<and> (\<exists>before after.
                  sorted (map m_timestamp (before @ rows @ after))
                  \<and> mset (before @ rows @ after) = mset (messages_of db cid)
                  \<and> length before = min (nat off) (length (messages_of db cid))
                  \<and> length rows = min (nat l) (length (messages_of db cid) - nat off)))"
proof
  have "snd (Message_getRecentMessages db cid (Some n))
          = Inr (rev (take (nat n) (order_by_desc m_timestamp (messages_of db cid))))"
    using assms(1,2)
    by (simp add: Message_getRecentMessages_def db_query_runs num_param_def limit_ok_def
          limit_of_def)
  with latest_rows[where ms = "messages_of db cid" and k = "nat n"]
  show "\<exists>rows. snd (Message_getRecentMessages db cid (Some n)) = Inr rows
            \<and> sorted (map m_timestamp rows)
            \<and> length rows = min (nat n) (length (messages_of db cid))
            \<and> mset rows \<subseteq># mset (messages_of db cid)
            \<and> (\<forall>m \<in># mset (messages_of db cid) - mset rows.
                  \<forall>r \<in> set rows. m_timestamp m \<le> m_timestamp r)"
    by blast
  have "snd (Message_findByConversationId db cid (Some l) (Some off))
          = Inr (take (nat l) (drop (nat off) (order_by_asc m_timestamp (messages_of db cid))))"
    using assms(1,3,4)
    by (simp add: Message_findByConversationId_def db_query_runs num_param_def limit_ok_def
          limit_of_def)
  with page_rows[where ms = "messages_of db cid" and l = "nat l" and off = "nat off"]
       page_position[where ms = "messages_of db cid" and l = "nat l" and off = "nat off"]
  show "\<exists>rows. snd (Message_findByConversationId db cid (Some l) (Some off)) = Inr rows
            \<and> sorted (map m_timestamp rows)
            \<and> mset rows \<subseteq># mset (messages_of db cid)
            \<and> (\<exists>before after.
                  sorted (map m_timestamp (before @ rows @ after))
                  \<and> mset (before @ rows @ after) = mset (messages_of db cid)
                  \<and> length before = min (nat off) (length (messages_of db cid))
                  \<and> length rows = min (nat l) (length (messages_of db cid) - nat off))"
    by simp
qed

theorem recent_messages_latest_ascending_witness:
  "next_statement_runs sample_database \<and> (0::int) \<le> 2 \<and> (0::int) \<le> 100 \<and> (0::int) \<le> 0
   \<and> (\<exists>rows. snd (Message_getRecentMessages sample_database 1 (Some 2)) = Inr rows
          \<and> sorted (map m_timestamp rows)
          \<and> length rows = min (nat 2) (length (messages_of sample_database 1))
          \<and> mset rows \<subseteq># mset (messages_of sample_database 1))
   \<and> (\<exists>rows. snd (Message_findByConversationId sample_database 1 (Some 100) (Some 0)) = Inr rows
          \<and> sorted (map m_timestamp rows)
          \<and> length rows = 3
          \<and> mset rows = mset (messages_of sample_database 1))"
proof -
  have a: "next_statement_runs sample_database"
    by (simp add: next_statement_runs_def sample_database_def)
  have n: "length (messages_of sample_database 1) = 3"
    by (simp add: messages_of_def sample_database_def)
  from recent_messages_latest_ascending[OF a, of 2 100 0 1]
  obtain recent rows before after where
    r: "snd (Message_getRecentMessages sample_database 1 (Some 2)) = Inr recent"
       "sorted (map m_timestamp recent)"
       "length recent = min (nat 2) (length (messages_of sample_database 1))"
       "mset recent \<subseteq># mset (messages_of sample_database 1)"
    and p: "snd (Message_findByConversationId sample_database 1 (Some 100) (Some 0)) = Inr rows"
       "sorted (map m_timestamp rows)"
       "mset (before @ rows @ after) = mset (messages_of sample_database 1)"
       "length before = min (nat 0) (length (messages_of sample_database 1))"
       "length rows = min (nat 100) (length (messages_of sample_database 1) - nat 0)"
    by auto
  from p(4) have "before = []" by simp
  moreover from p(5) n have len: "length rows = 3" by simp
  moreover from p(3) have "length (before @ rows @ after) = length (messages_of sample_database 1)"
    by (metis size_mset)
  ultimately have "after = []" using n by simp
  with \<open>before = []\<close> p(3) have "mset rows = mset (messages_of sample_database 1)" by simp
  with a r p(1,2) len show ?thesis by auto
qed

section \<open>Creating a message\<close>

lemma enum_value_members:
  "enum_value ''user'' = Some ''user''"
  "enum_value ''ai'' = Some ''ai''"
  "enum_value ''error'' = Some ''error''"
  by code_simp+

lemma enum_value_member: "type \<in> set message_types \<Longrightarrow> enum_value type = Some type"
  by (auto simp: message_types_def enum_value_members)

lemma insert_runs:
  assumes "filter (\<lambda>c. c_id c = cid) (conversations db) \<noteq> []"
      and "type \<in> set message_types"
      and "length content \<le> 65535"
      and "next_statement_runs db"
  shows "Message_insert db cid content type
           = (db\<lparr>calls := Suc (calls db), faults := tl (faults db),
                 messages := messages db @
                   [\<lparr>m_id = next_message_id db, m_conversation_id = cid, m_content = content,
                     m_type = type, m_timestamp = clock db\<rparr>],
                 next_message_id := next_message_id db + 1\<rparr>,
              Inr (next_message_id db))"
  using assms
  by (simp add: Message_insert_def db_query_runs enum_value_member)

lemma touch_calls: "calls (Message_updateConversationTimestamp db cid) = Suc (calls db)"
  by (auto simp: Message_updateConversationTimestamp_def db_query_def split: list.splits)

lemma touch_messages: "messages (Message_updateConversationTimestamp db cid) = messages db"
  by (auto simp: Message_updateConversationTimestamp_def db_query_def split: list.splits)

lemma touch_clock: "clock (Message_updateConversationTimestamp db cid) = clock db"
  by (auto simp: Message_updateConversationTimestamp_def db_query_def split: list.splits)

lemma touch_ids:
  "map c_id (conversations (Message_updateConversationTimestamp db cid))
     = map c_id (conversations db)"
  by (auto simp: Message_updateConversationTimestamp_def db_query_def split: list.splits)

lemma touch_conversations:
  "conversations (Message_updateConversationTimestamp db cid)
     = (if next_statement_runs db
        then map (\<lambda>c. if c_id c = cid then c\<lparr>c_updated_at := clock db\<rparr> else c) (conversations db)
        else conversations db)"
  by (auto simp: Message_updateConversationTimestamp_def db_query_def next_statement_runs_def
      split: list.splits cong: if_cong)

lemma touch_monotone:
  assumes "\<forall>c \<in> set (conversations db). c_updated_at c \<le> clock db"
  shows "list_all2 (\<lambda>c c'. c_updated_at c \<le> c_updated_at c')
           (conversations db) (conversations (Message_updateConversationTimestamp db cid))"
proof -
  have "list_all2 (\<lambda>c c'. c_updated_at c \<le> c_updated_at c') (conversations db)
          (map (\<lambda>c. if c_id c = cid then c\<lparr>c_updated_at := clock db\<rparr> else c) (conversations db))"
    using assms by (auto simp: list_all2_map2 intro: list_all2_all_nthI)
  moreover have "list_all2 (\<lambda>c c'. c_updated_at c \<le> c_updated_at c')
          (conversations db) (conversations db)"
    by (simp add: list_all2_same)
  ultimately show ?thesis
    by (simp add: touch_conversations)
qed

lemma touch_sets_clock:
  assumes "next_statement_runs db"
  shows "\<forall>c \<in> set (conversations (Message_updateConversationTimestamp db cid)).
           c_id c = cid \<longrightarrow> c_updated_at c = clock db"
proof (intro ballI impI)
  fix c
  assume c: "c \<in> set (conversations (Message_updateConversationTimestamp db cid))"
    and hit: "c_id c = cid"
  from c assms
  have "(\<exists>x \<in> set (conversations db) \<inter> {c. c_id c = cid}. c = x\<lparr>c_updated_at := clock db\<rparr>)
        \<or> c \<in> set (conversations db) \<and> c_id c \<noteq> cid"
    unfolding touch_conversations by (simp add: image_iff)
  with hit show "c_updated_at c = clock db"
    by (elim disjE bexE conjE) simp_all
qed

text \<open>
  Claim C6. Creating a message for an existing conversation, when the \<open>INSERT\<close> itself
  runs, always sends the statement that updates the parent's \<open>updated_at\<close> (two statements
  are counted), returns the message and leaves its row stored, whether or not that second
  statement fails. No conversation's \<open>updated_at\<close> decreases (the clock being no earlier
  than the stored timestamps), and when the second statement runs the parent's
  \<open>updated_at\<close> is the current time.
\<close>

theorem message_create_touches_conversation:
  assumes parent: "filter (\<lambda>c. c_id c = cid) (conversations db) \<noteq> []"
      and ty: "type \<in> set message_types"
      and len: "length content \<le> 65535"
      and runs: "next_statement_runs db"
      and past: "\<forall>c \<in> set (conversations db). c_updated_at c \<le> clock db"
  shows "\<exists>db'. Message_create db cid content type
            = (db', Inr \<lparr>m_id = next_message_id db, m_conversation_id = cid,
                          m_content = content, m_type = type, m_timestamp = clock db\<rparr>)
          \<and> calls db' = calls db + 2
          \<and> messages db' = messages db @
                [\<lparr>m_id = next_message_id db, m_conversation_id = cid,
                  m_content = content, m_type = type, m_timestamp = clock db\<rparr>]
          \<and> map c_id (conversations db') = map c_id (conversations db)
          \<and> list_all2 (\<lambda>c c'. c_updated_at c \<le> c_updated_at c')
                (conversations db) (conversations db')
          \<and> (next_statement_runs (db\<lparr>faults := tl (faults db)\<rparr>) \<longrightarrow>
                (\<forall>c \<in> set (conversations db'). c_id c = cid \<longrightarrow> c_updated_at c = clock db))"
proof -
  define db1 where "db1 = db\<lparr>calls := Suc (calls db), faults := tl (faults db),
                 messages := messages db @
                   [\<lparr>m_id = next_message_id db, m_conversation_id = cid, m_content = content,
                     m_type = type, m_timestamp = clock db\<rparr>],
                 next_message_id := next_message_id db + 1\<rparr>"
  have ins: "Message_insert db cid content type = (db1, Inr (next_message_id db))"
    unfolding db1_def by (rule insert_runs[OF parent ty len runs])
  have past1: "\<forall>c \<in> set (conversations db1). c_updated_at c \<le> clock db1"
    using past by (simp add: db1_def)
  have runs1: "next_statement_runs (db\<lparr>faults := tl (faults db)\<rparr>) \<Longrightarrow> next_statement_runs db1"
    by (simp add: db1_def next_statement_runs_def)
  let ?db' = "Message_updateConversationTimestamp db1 cid"
  have "Message_create db cid content type
          = (?db', Inr \<lparr>m_id = next_message_id db, m_conversation_id = cid,
                          m_content = content, m_type = type, m_timestamp = clock db\<rparr>)"
    by (simp add: Message_create_def ins Let_def touch_clock) (simp add: db1_def)
  moreover have "calls ?db' = calls db + 2"
    by (simp add: touch_calls) (simp add: db1_def)
  moreover have "messages ?db' = messages db @
                [\<lparr>m_id = next_message_id db, m_conversation_id = cid,
                  m_content = content, m_type = type, m_timestamp = clock db\<rparr>]"
    by (simp add: touch_messages) (simp add: db1_def)
  moreover have "map c_id (conversations ?db') = map c_id (conversations db)"
    by (simp add: touch_ids) (simp add: db1_def)
  moreover have "list_all2 (\<lambda>c c'. c_updated_at c \<le> c_updated_at c')
                (conversations db) (conversations ?db')"
    using touch_monotone[OF past1, of cid] by (simp add: db1_def)
  moreover have "next_statement_runs (db\<lparr>faults := tl (faults db)\<rparr>) \<longrightarrow>
                (\<forall>c \<in> set (conversations ?db'). c_id c = cid \<longrightarrow> c_updated_at c = clock db)"
    using touch_sets_clock[of db1 cid] runs1 by (simp add: db1_def)
  ultimately show ?thesis by blast
qed

theorem message_create_touches_conversation_witness:
  "filter (\<lambda>c. c_id c = 1) (conversations sample_database_failing_second) \<noteq> []
   \<and> ''user'' \<in> set message_types
   \<and> length ''Hello'' \<le> 65535
   \<and> next_statement_runs sample_database_failing_second
   \<and> list_all (\<lambda>c. c_updated_at c \<le> clock sample_database_failing_second)
         (conversations sample_database_failing_second)
   \<and> \<not> next_statement_runs
           (sample_database_failing_second\<lparr>faults := tl (faults sample_database_failing_second)\<rparr>)
   \<and> snd (Message_create sample_database_failing_second 1 ''Hello'' ''user'')
       = Inr \<lparr>m_id = 4, m_conversation_id = 1, m_content = ''Hello'', m_type = ''user'',
               m_timestamp = 5000\<rparr>
   \<and> calls (fst (Message_create sample_database_failing_second 1 ''Hello'' ''user'')) = 2"
proof -
  let ?db = sample_database_failing_second
  have a: "filter (\<lambda>c. c_id c = 1) (conversations ?db) \<noteq> []"
    by (simp add: sample_database_failing_second_def sample_database_def)
  have b: "''user'' \<in> set message_types"
    by (simp add: message_types_def)
  have c: "length ''Hello'' \<le> 65535"
    by simp
  have d: "next_statement_runs ?db"
    by (simp add: next_statement_runs_def sample_database_failing_second_def)
  have e: "list_all (\<lambda>c. c_updated_at c \<le> clock ?db) (conversations ?db)"
    by (simp add: sample_database_failing_second_def sample_database_def)
  then have e': "\<forall>c \<in> set (conversations ?db). c_updated_at c \<le> clock ?db"
    by (simp add: list_all_iff)
  have f: "\<not> next_statement_runs (?db\<lparr>faults := tl (faults ?db)\<rparr>)"
    by (simp add: next_statement_runs_def sample_database_failing_second_def)
  have g: "next_message_id ?db = 4" "clock ?db = 5000" "calls ?db = 0"
    by (simp_all add: sample_database_failing_second_def sample_database_def)
  from message_create_touches_conversation[OF a b c d e']
  obtain db' where
    "Message_create ?db 1 ''Hello'' ''user''
       = (db', Inr \<lparr>m_id = next_message_id ?db, m_conversation_id = 1, m_content = ''Hello'',
                     m_type = ''user'', m_timestamp = clock ?db\<rparr>)"
    "calls db' = calls ?db + 2"
    by blast
  then have "snd (Message_create ?db 1 ''Hello'' ''user'')
       = Inr \<lparr>m_id = 4, m_conversation_id = 1, m_content = ''Hello'', m_type = ''user'',
               m_timestamp = 5000\<rparr>"
    and "calls (fst (Message_create ?db 1 ''Hello'' ''user'')) = 2"
    by (simp_all add: g)
  with a b c d e f show ?thesis by blast
qed

section \<open>The title of a conversation at the HTTP boundary\<close>

lemma blank_title_rejected:
  assumes "field reqbody ''title'' = JStr s" and "s \<noteq> []" and "trim s = []"
  shows "validateConversationInput reqbody
           = Some (json 400 [(''error'', JStr ''Invalid title. Title must be a non-empty string.'')])"
  using assms by (simp add: validateConversationInput_def string_of_def Let_def)

lemma missing_title_passes:
  "field reqbody ''title'' = JUndefined \<Longrightarrow> validateConversationInput reqbody = None"
  by (simp add: validateConversationInput_def Let_def)

lemma create_default_title:
  assumes "field reqbody ''title'' = JUndefined"
      and "\<not> truthy (field reqbody ''user_id'')"
      and "next_statement_runs db"
  shows "create_conversation db reqbody
           = (db\<lparr>calls := Suc (calls db), faults := tl (faults db),
                 conversations := conversations db @
                   [\<lparr>c_id = next_conversation_id db, c_user_id = None,
                     c_title = Some ''New Conversation'',
                     c_created_at = clock db, c_updated_at = clock db\<rparr>],
                 next_conversation_id := next_conversation_id db + 1\<rparr>,
              json 201 [(''success'', JBool True),
                        (''data'', JObj [(''id'', JNum (next_conversation_id db)),
                                         (''title'', JStr ''New Conversation''),
                                         (''user_id'', JNull),
                                         (''created_at'', JDate (clock db)),
                                         (''updated_at'', JDate (clock db))])])"
  using assms
  by (simp add: create_conversation_def Conversation_create_def js_default_def js_or_def
        db_query_runs too_long_def unknown_user_def Let_def)

text \<open>
  Two more requests on the sample database: an empty title passes the validation (it is
  falsy) and is stored as the empty string; an update without a title passes the
  validation, binds \<open>undefined\<close> and is answered with status 500.
\<close>

lemma empty_title_stored_as_is:
  "map c_title (conversations (fst (router sample_database
       (POST_conversations [(''title'', JStr '''')]))))
     = [Some ''Sample Conversation'', Some '''']"
  by code_simp

lemma update_without_title_fails:
  "snd (router sample_database (PUT_conversation ''1'' []))
     = failure 500 ''Failed to update conversation''"
  by code_simp

lemma create_without_title:
  assumes "field reqbody ''title'' = JUndefined"
  shows "(\<exists>db'. create_conversation db reqbody
                  = (db', failure 500 ''Failed to create conversation'')
              \<and> conversations db' = conversations db)
         \<or> (\<exists>db' u. create_conversation db reqbody
                  = (db', json 201 [(''success'', JBool True),
                        (''data'', JObj [(''id'', JNum (next_conversation_id db)),
                                         (''title'', JStr ''New Conversation''),
                                         (''user_id'', js_or (field reqbody ''user_id'') JNull),
                                         (''created_at'', JDate (clock db)),
                                         (''updated_at'', JDate (clock db))])])
              \<and> conversations db' = conversations db @
                   [\<lparr>c_id = next_conversation_id db, c_user_id = u,
                     c_title = Some ''New Conversation'',
                     c_created_at = clock db, c_updated_at = clock db\<rparr>])"
proof -
  have defined: "js_or (field reqbody ''user_id'') JNull \<noteq> JUndefined"
    by (cases "field reqbody ''user_id''") (auto simp: js_or_def)
  then have u: "js_default (js_or (field reqbody ''user_id'') JNull) JNull
             = js_or (field reqbody ''user_id'') JNull"
    by (simp add: js_default_def)
  have t: "js_default JUndefined (JStr ''New Conversation'') = JStr ''New Conversation''"
          "js_default (JStr ''New Conversation'') (JStr ''New Conversation'')
             = JStr ''New Conversation''"
    by (simp_all add: js_default_def)
  show ?thesis
    using assms defined
    by (auto simp: create_conversation_def Conversation_create_def db_query_def u t too_long_def
          Let_def
        split: list.splits sum.splits if_splits)
qed


text \<open>
  A request without a title that names an owner who is not in \<open>users\<close>: the default
  title is bound, the foreign key refuses the row, the answer is 500 and nothing is stored.
\<close>

lemma title_less_post_with_unknown_owner:
  "router sample_database (POST_conversations [(''user_id'', JNum 5)])
     = (sample_database\<lparr>calls := 1\<rparr>, failure 500 ''Failed to create conversation'')"
  by code_simp

text \<open>
  Claim C2, as stated, fails: a request to create a conversation whose title is three
  spaces is answered with status 400, and nothing is stored.
\<close>

theorem whitespace_title_rejected_on_sample:
  "router sample_database (POST_conversations [(''title'', JStr ''   '')])
     = (sample_database,
        json 400 [(''error'', JStr ''Invalid title. Title must be a non-empty string.'')])"
  by code_simp

text \<open>
  Claim C2, amended. A request to create a conversation that carries no title passes the
  validation and is given the title \<open>New Conversation\<close>: either the \<open>INSERT\<close> succeeds,
  the conversation is stored with that title and the answer is 201 with that title, or the
  answer is 500 and no conversation is stored. The \<open>INSERT\<close> succeeds whenever the request
  names no owner and the database runs the statement. A request to create or to update a
  conversation whose title is a non-empty string of white space only is answered with
  status 400 and leaves the database as it was.
\<close>

theorem missing_title_defaults_blank_title_rejected:
  "(field reqbody ''title'' = JUndefined \<longrightarrow>
      (\<exists>db'. router db (POST_conversations reqbody)
                = (db', failure 500 ''Failed to create conversation'')
            \<and> conversations db' = conversations db)
      \<or> (\<exists>db' u. router db (POST_conversations reqbody)
                = (db', json 201 [(''success'', JBool True),
                        (''data'', JObj [(''id'', JNum (next_conversation_id db)),
                                         (''title'', JStr ''New Conversation''),
                                         (''user_id'', js_or (field reqbody ''user_id'') JNull),
                                         (''created_at'', JDate (clock db)),
                                         (''updated_at'', JDate (clock db))])])
            \<and> conversations db' = conversations db @
                   [\<lparr>c_id = next_conversation_id db, c_user_id = u,
                     c_title = Some ''New Conversation'',
                     c_created_at = clock db, c_updated_at = clock db\<rparr>]))
   \<and> (field reqbody ''title'' = JUndefined \<and> \<not> truthy (field reqbody ''user_id'')
      \<and> next_statement_runs db \<longrightarrow>
      (\<exists>db'. router db (POST_conversations reqbody)
                = (db', json 201 [(''success'', JBool True),
                        (''data'', JObj [(''id'', JNum (next_conversation_id db)),
                                         (''title'', JStr ''New Conversation''),
                                         (''user_id'', JNull),
                                         (''created_at'', JDate (clock db)),
                                         (''updated_at'', JDate (clock db))])])
            \<and> conversations db' = conversations db @
                   [\<lparr>c_id = next_conversation_id db, c_user_id = None,
                     c_title = Some ''New Conversation'',
                     c_created_at = clock db, c_updated_at = clock db\<rparr>]))
   \<and> (field reqbody2 ''title'' = JStr s \<and> s \<noteq> [] \<and> trim s = [] \<longrightarrow>
        router db (POST_conversations reqbody2)
          = (db, json 400 [(''error'', JStr ''Invalid title. Title must be a non-empty string.'')])
      \<and> router db (PUT_conversation ident reqbody2)
          = (db, json 400 [(''error'', JStr ''Invalid title. Title must be a non-empty string.'')]))"
proof (intro conjI impI)
  assume t: "field reqbody ''title'' = JUndefined"
  then have "router db (POST_conversations reqbody) = create_conversation db reqbody"
    by (simp add: router_def missing_title_passes)
  with create_without_title[OF t, of db]
  show "(\<exists>db'. router db (POST_conversations reqbody)
                = (db', failure 500 ''Failed to create conversation'')
            \<and> conversations db' = conversations db)
      \<or> (\<exists>db' u. router db (POST_conversations reqbody)
                = (db', json 201 [(''success'', JBool True),
                        (''data'', JObj [(''id'', JNum (next_conversation_id db)),
                                         (''title'', JStr ''New Conversation''),
                                         (''user_id'', js_or (field reqbody ''user_id'') JNull),
                                         (''created_at'', JDate (clock db)),
                                         (''updated_at'', JDate (clock db))])])
            \<and> conversations db' = conversations db @
                   [\<lparr>c_id = next_conversation_id db, c_user_id = u,
                     c_title = Some ''New Conversation'',
                     c_created_at = clock db, c_updated_at = clock db\<rparr>])"
    by simp
qed (auto simp: router_def blank_title_rejected missing_title_passes create_default_title)

theorem missing_title_defaults_blank_title_rejected_witness:
  "field [] ''title'' = JUndefined \<and> \<not> truthy (field [] ''user_id'')
   \<and> next_statement_runs sample_database
   \<and> (\<exists>db'. router sample_database (POST_conversations [])
                = (db', json 201 [(''success'', JBool True),
                        (''data'', JObj [(''id'', JNum 2),
                                         (''title'', JStr ''New Conversation''),
                                         (''user_id'', JNull),
                                         (''created_at'', JDate 5000),
                                         (''updated_at'', JDate 5000)])])
            \<and> conversations db' = conversations sample_database @
                   [\<lparr>c_id = 2, c_user_id = None, c_title = Some ''New Conversation'',
                     c_created_at = 5000, c_updated_at = 5000\<rparr>])
   \<and> field [(''title'', JStr ''   '')] ''title'' = JStr ''   ''
   \<and> ''   '' \<noteq> [] \<and> trim ''   '' = []
   \<and> router sample_database (PUT_conversation ''1'' [(''title'', JStr ''   '')])
       = (sample_database,
          json 400 [(''error'', JStr ''Invalid title. Title must be a non-empty string.'')])"
proof -
  have a: "field [] ''title'' = JUndefined" "\<not> truthy (field [] ''user_id'')"
    by (simp_all add: field_def)
  have b: "next_statement_runs sample_database"
    by (simp add: next_statement_runs_def sample_database_def)
  have c: "field [(''title'', JStr ''   '')] ''title'' = JStr ''   ''"
    by (simp add: field_def)
  have d: "''   '' \<noteq> []" by simp
  have e: "trim ''   '' = []" by code_simp
  have g: "next_conversation_id sample_database = 2" "clock sample_database = 5000"
    by (simp_all add: sample_database_def)
  from missing_title_defaults_blank_title_rejected
         [where reqbody = "[]" and db = sample_database
            and ?reqbody2.0 = "[(''title'', JStr ''   '')]" and s = "''   ''" and ident = "''1''"]
       a b c d e
  show ?thesis unfolding g by blast
qed

section \<open>The length of a message\<close>

lemma trim_replicate: "\<not> is_ws c \<Longrightarrow> trim (replicate n c) = replicate n c"
  by (cases n) (simp_all add: trim_def dropWhile_replicate del: replicate.simps)

lemma long_content_facts:
  "length long_content = 1001" "long_content \<noteq> []" "trim long_content = long_content"
proof -
  show "length long_content = 1001" by (simp add: long_content_def)
  then show "long_content \<noteq> []" by auto
  have "\<not> is_ws (CHR ''a'')" by code_simp
  then show "trim long_content = long_content"
    unfolding long_content_def by (rule trim_replicate)
qed

lemma id_one: "invalid_id ''1'' = False" "id_of ''1'' = 1"
  by code_simp+

lemma trim_nonempty: "trim s \<noteq> [] \<Longrightarrow> s \<noteq> []"
  by (auto simp: trim_def)

lemma valid_message_passes:
  assumes "field reqbody ''content'' = JStr s" and "trim s \<noteq> []"
      and "field reqbody ''type'' \<in> {JStr ''user'', JStr ''ai'', JStr ''error''}"
  shows "validateMessageInput reqbody = None"
  using assms trim_nonempty[of s]
  by (auto simp: validateMessageInput_def string_of_def Let_def)

text \<open>
  Claim C3, as stated, fails: a request to append a message of 1001 characters to the
  sample conversation is answered with status 201, and the message is stored with all its
  1001 characters.
\<close>

theorem long_message_accepted_on_sample:
  "length long_content = 1001
   \<and> status (snd (router sample_database
        (POST_messages ''1'' [(''content'', JStr long_content), (''type'', JStr ''user'')]))) = 201
   \<and> m_content (last (messages (fst (router sample_database
        (POST_messages ''1'' [(''content'', JStr long_content), (''type'', JStr ''user'')])))))
       = long_content"
proof -
  let ?b = "[(''content'', JStr long_content), (''type'', JStr ''user'')]"
  have v: "validateMessageInput ?b = None"
    by (simp add: validateMessageInput_def field_def string_of_def long_content_facts Let_def)
  have "router sample_database (POST_messages ''1'' ?b) = add_message sample_database ''1'' ?b"
    by (simp add: router_def v)
  moreover have "status (snd (add_message sample_database ''1'' ?b)) = 201"
    by (simp add: add_message_def field_def string_of_def id_one long_content_facts
          Conversation_findById_def db_query_def sample_database_def Message_create_def
          Message_insert_def Message_updateConversationTimestamp_def enum_value_members
          json_def Let_def)
  moreover have "m_content (last (messages (fst (add_message sample_database ''1'' ?b))))
                   = long_content"
    by (simp add: add_message_def field_def string_of_def id_one long_content_facts
          Conversation_findById_def db_query_def sample_database_def Message_create_def
          Message_insert_def Message_updateConversationTimestamp_def enum_value_members
          json_def Let_def)
  ultimately show ?thesis by (simp add: long_content_facts)
qed

text \<open>
  Claim C3, amended. The bound of 1000 characters is that of the input check of the
  presentation layer: \<open>isValidInput\<close> holds of no text longer than 1000 characters, and so
  neither does \<open>isValidMessage\<close>. The validation of the HTTP API puts no bound on the
  length: it passes on every request whose content is a string that is not empty after
  trimming and whose type is \<open>user\<close>, \<open>ai\<close> or \<open>error\<close>.
\<close>

theorem length_bound_is_client_side:
  "(isValidInput text \<longrightarrow> length text \<le> 1000)
   \<and> (1000 < length text \<longrightarrow> \<not> isValidMessage text)
   \<and> (field reqbody ''content'' = JStr s \<and> trim s \<noteq> []
        \<and> field reqbody ''type'' \<in> {JStr ''user'', JStr ''ai'', JStr ''error''} \<longrightarrow>
        middleware (POST_messages ident reqbody) = None)"
  by (auto simp: isValidInput_def isValidMessage_def valid_message_passes)

theorem length_bound_is_client_side_witness:
  "isValidInput ''How do I plant tomatoes?'' \<and> length ''How do I plant tomatoes?'' \<le> 1000
   \<and> 1000 < length long_content \<and> \<not> isValidMessage long_content
   \<and> field [(''content'', JStr long_content), (''type'', JStr ''user'')] ''content''
       = JStr long_content
   \<and> trim long_content \<noteq> []
   \<and> field [(''content'', JStr long_content), (''type'', JStr ''user'')] ''type'' = JStr ''user''
   \<and> middleware (POST_messages ''1'' [(''content'', JStr long_content), (''type'', JStr ''user'')])
       = None"
proof -
  let ?b = "[(''content'', JStr long_content), (''type'', JStr ''user'')]"
  have a: "isValidInput ''How do I plant tomatoes?''" by code_simp
  have b: "1000 < length long_content" "trim long_content \<noteq> []"
    by (simp_all add: long_content_facts)
  have c: "field ?b ''content'' = JStr long_content" "field ?b ''type'' = JStr ''user''"
    by (simp_all add: field_def)
  have d: "field ?b ''type'' \<in> {JStr ''user'', JStr ''ai'', JStr ''error''}"
    by (simp add: c)
  from length_bound_is_client_side[of "''How do I plant tomatoes?''" ?b long_content "''1''"]
       length_bound_is_client_side[of long_content ?b long_content "''1''"] a b c d
  show ?thesis by blast
qed

section \<open>The shape of the responses\<close>

lemma envelope_failure [simp]: "envelope (failure code msg)"
  by (simp add: envelope_def failure_def json_def)

lemma envelope_success [simp]: "envelope (json code ((''success'', JBool True) # rest))"
  by (simp add: envelope_def json_def)

lemma envelope_create: "envelope (snd (create_conversation db b))"
  by (auto simp: create_conversation_def Let_def split: prod.splits sum.splits)

lemma envelope_list: "envelope (snd (list_conversations db q))"
  by (auto simp: list_conversations_def Let_def split: prod.splits sum.splits)

lemma envelope_get: "envelope (snd (get_conversation db i))"
  by (auto simp: get_conversation_def split: prod.splits sum.splits option.splits)

lemma envelope_update: "envelope (snd (update_conversation db i b))"
  by (auto simp: update_conversation_def Let_def split: prod.splits sum.splits bool.splits)

lemma envelope_delete: "envelope (snd (delete_conversation db i))"
  by (auto simp: delete_conversation_def split: prod.splits sum.splits bool.splits)

lemma envelope_search: "envelope (snd (search_conversations db s q))"
  by (auto simp: search_conversations_def Let_def split: prod.splits sum.splits)

lemma envelope_add: "envelope (snd (add_message db i b))"
  by (auto simp: add_message_def Let_def split: prod.splits sum.splits option.splits)

lemma envelope_messages: "envelope (snd (list_messages db i q))"
  by (auto simp: list_messages_def Let_def split: prod.splits sum.splits option.splits)

lemma envelope_recent: "envelope (snd (recent_messages db i q))"
  by (auto simp: recent_messages_def Let_def split: prod.splits sum.splits option.splits)

lemma envelope_conversation_stats: "envelope (snd (conversation_stats db i))"
  by (auto simp: conversation_stats_def split: prod.splits sum.splits option.splits)

lemma envelope_overall_stats: "envelope (snd (overall_stats db q))"
  by (auto simp: overall_stats_def Let_def split: prod.splits sum.splits)

lemma envelope_handler: "r \<noteq> GET_health \<Longrightarrow> envelope (snd (handler db r))"
  by (cases r)
     (simp_all add: envelope_create envelope_list envelope_get envelope_update envelope_delete
        envelope_search envelope_add envelope_messages envelope_recent
        envelope_conversation_stats envelope_overall_stats endpoint_not_found_def)

lemma paginated_list:
  "status (snd (list_conversations db q)) = 200 \<Longrightarrow> paginated (snd (list_conversations db q))"
  by (auto simp: list_conversations_def paginated_def json_def failure_def Let_def
      split: prod.splits sum.splits)

lemma paginated_messages:
  "status (snd (list_messages db i q)) = 200 \<Longrightarrow> paginated (snd (list_messages db i q))"
  by (auto simp: list_messages_def paginated_def json_def failure_def Let_def
      split: prod.splits sum.splits option.splits if_splits)

lemma counted_search:
  "status (snd (search_conversations db s q)) = 200 \<Longrightarrow>
   counted (snd (search_conversations db s q)) \<and> \<not> paginated (snd (search_conversations db s q))"
  by (auto simp: search_conversations_def counted_def paginated_def json_def failure_def Let_def
      split: prod.splits sum.splits if_splits)

lemma counted_recent:
  "status (snd (recent_messages db i q)) = 200 \<Longrightarrow>
   counted (snd (recent_messages db i q)) \<and> \<not> paginated (snd (recent_messages db i q))"
  by (auto simp: recent_messages_def counted_def paginated_def json_def failure_def Let_def
      split: prod.splits sum.splits option.splits if_splits)

lemma health_shape:
  "\<not> envelope (snd (health db)) \<and> has_field (body (snd (health db))) ''status''"
  by (auto simp: health_def envelope_def json_def db_query_def split: list.splits)

text \<open>
  Claim C5, as stated, fails. On the sample database: the answer of the validation
  middleware to a message of an unknown type, the answer of the rate limiter to a client
  beyond its limit, the answer of the server to a path outside the API and the answer of
  the health check carry no \<open>success\<close>; and the successful answer of the recent-messages
  endpoint carries no \<open>pagination\<close>.
\<close>

theorem responses_outside_envelope_on_sample:
  "\<not> envelope (snd (router sample_database
        (POST_messages ''1'' [(''content'', JStr ''Hello''), (''type'', JStr ''admin'')])))
   \<and> \<not> envelope (snd (api 100 101 sample_database (GET_conversations [])))
   \<and> \<not> envelope (app_not_found ''/nowhere'' ''GET'')
   \<and> \<not> envelope (snd (router sample_database GET_health))
   \<and> status (snd (router sample_database (GET_messages_recent ''1'' []))) = 200
   \<and> \<not> paginated (snd (router sample_database (GET_messages_recent ''1'' [])))"
  by code_simp

text \<open>
  Claim C5, amended. Every answer that a route handler of the API router gives (the
  health check apart), the router's own catch-all included, is an object with a boolean
  \<open>success\<close>, and with a string \<open>error\<close> when \<open>success\<close> is false. The successful answers
  (status 200) of the conversation list and of the message list carry \<open>pagination\<close> with
  \<open>limit\<close>, \<open>offset\<close> and \<open>count\<close>. The successful answers of the search and of the
  recent-messages endpoint carry a top-level \<open>count\<close>, the number of entries of \<open>data\<close>,
  and no \<open>pagination\<close>. The health check answers with an object that has \<open>status\<close> and
  no \<open>success\<close>.
\<close>

theorem handler_responses_in_envelope:
  "(middleware r = None \<and> r \<noteq> GET_health \<longrightarrow> envelope (snd (router db r)))
   \<and> (status (snd (router db (GET_conversations q))) = 200 \<longrightarrow>
        paginated (snd (router db (GET_conversations q))))
   \<and> (status (snd (router db (GET_messages ident q))) = 200 \<longrightarrow>
        paginated (snd (router db (GET_messages ident q))))
   \<and> (status (snd (router db (GET_conversations_search s q))) = 200 \<longrightarrow>
        counted (snd (router db (GET_conversations_search s q)))
        \<and> \<not> paginated (snd (router db (GET_conversations_search s q))))
   \<and> (status (snd (router db (GET_messages_recent ident q))) = 200 \<longrightarrow>
        counted (snd (router db (GET_messages_recent ident q)))
        \<and> \<not> paginated (snd (router db (GET_messages_recent ident q))))
   \<and> \<not> envelope (snd (router db GET_health))
   \<and> has_field (body (snd (router db GET_health))) ''status''"
  using health_shape[of db]
  by (auto simp: router_def envelope_handler paginated_list paginated_messages
        counted_search counted_recent)

theorem handler_responses_in_envelope_witness:
  "middleware (GET_conversation ''99'') = None \<and> GET_conversation ''99'' \<noteq> GET_health
   \<and> status (snd (router sample_database (GET_conversation ''99''))) = 404
   \<and> envelope (snd (router sample_database (GET_conversation ''99'')))
   \<and> status (snd (router sample_database (GET_conversations []))) = 200
   \<and> paginated (snd (router sample_database (GET_conversations [])))
   \<and> status (snd (router sample_database (GET_messages ''1'' []))) = 200
   \<and> paginated (snd (router sample_database (GET_messages ''1'' [])))
   \<and> status (snd (router sample_database (GET_conversations_search ''tomato'' []))) = 200
   \<and> counted (snd (router sample_database (GET_conversations_search ''tomato'' [])))
   \<and> status (snd (router sample_database (GET_messages_recent ''1'' []))) = 200
   \<and> counted (snd (router sample_database (GET_messages_recent ''1'' [])))"
proof -
  have a: "middleware (GET_conversation ''99'') = None" "GET_conversation ''99'' \<noteq> GET_health"
    by simp_all
  have b: "status (snd (router sample_database (GET_conversation ''99''))) = 404"
    by code_simp
  have c: "status (snd (router sample_database (GET_conversations []))) = 200"
    by code_simp
  have d: "status (snd (router sample_database (GET_messages ''1'' []))) = 200"
    by code_simp
  have e: "status (snd (router sample_database (GET_conversations_search ''tomato'' []))) = 200"
    by code_simp
  have f: "status (snd (router sample_database (GET_messages_recent ''1'' []))) = 200"
    by code_simp
  from handler_responses_in_envelope
         [where r = "GET_conversation ''99''" and db = sample_database and q = "[]"
            and ident = "''1''" and s = "''tomato''"]
       a b c d e f
  show ?thesis by blast
qed

end
